theory Spec2Isabelle
  imports Complex_Main "HOL-Library.Monad_Syntax"
begin

section \<open>Single-precision values\<close>

text \<open>
  The library computes on C++ \<^verbatim>\<open>float\<close>. The embedding keeps the four kinds of value
  that decide the control flow of the code: a finite number, the two infinities and
  not-a-number. Arithmetic on the special values follows IEEE 754 (an infinity absorbs
  any finite addend, \<open>inf - inf\<close>, \<open>0 * inf\<close>, \<open>0 / 0\<close> and \<open>inf / inf\<close> are NaN, every
  comparison with NaN is false). Arithmetic on finite values is exact: rounding,
  overflow to infinity, underflow and the sign of zero are not part of the model, so a
  finite result stands for the number the formula denotes.

  The results stated for every float follow from the control flow of the code alone
  (a test that fails, a branch that returns, entries that are copied) and do not depend
  on how finite values are rounded. The evaluations at concrete inputs use small
  integers, which single precision represents exactly, the infinities, or bounds with a
  margin far above rounding error. Where a result relies on exact arithmetic on finite
  values, its text says so.
\<close>

datatype float = Fin real | PInf | NInf | NaN

instantiation float :: "{uminus, plus, minus, times, inverse, ord}"
begin

fun uminus_float :: "float \<Rightarrow> float" where
  "uminus_float (Fin a) = Fin (- a)"
| "uminus_float PInf = NInf"
| "uminus_float NInf = PInf"
| "uminus_float NaN = NaN"

fun plus_float :: "float \<Rightarrow> float \<Rightarrow> float" where
  "plus_float (Fin a) (Fin b) = Fin (a + b)"
| "plus_float NaN _ = NaN"
| "plus_float _ NaN = NaN"
| "plus_float PInf NInf = NaN"
| "plus_float NInf PInf = NaN"
| "plus_float PInf _ = PInf"
| "plus_float _ PInf = PInf"
| "plus_float NInf _ = NInf"
| "plus_float _ NInf = NInf"

definition minus_float :: "float \<Rightarrow> float \<Rightarrow> float" where
  "minus_float a b = a + (- b)"

fun times_float :: "float \<Rightarrow> float \<Rightarrow> float" where
  "times_float (Fin a) (Fin b) = Fin (a * b)"
| "times_float NaN _ = NaN"
| "times_float _ NaN = NaN"
| "times_float (Fin a) PInf = (if a = 0 then NaN else if 0 < a then PInf else NInf)"
| "times_float (Fin a) NInf = (if a = 0 then NaN else if 0 < a then NInf else PInf)"
| "times_float PInf (Fin b) = (if b = 0 then NaN else if 0 < b then PInf else NInf)"
| "times_float NInf (Fin b) = (if b = 0 then NaN else if 0 < b then NInf else PInf)"
| "times_float PInf PInf = PInf"
| "times_float PInf NInf = NInf"
| "times_float NInf PInf = NInf"
| "times_float NInf NInf = PInf"

fun divide_float :: "float \<Rightarrow> float \<Rightarrow> float" where
  "divide_float (Fin a) (Fin b) =
     (if b = 0 then (if a = 0 then NaN else if 0 < a then PInf else NInf) else Fin (a / b))"
| "divide_float NaN _ = NaN"
| "divide_float _ NaN = NaN"
| "divide_float (Fin a) PInf = Fin 0"
| "divide_float (Fin a) NInf = Fin 0"
| "divide_float PInf (Fin b) = (if 0 \<le> b then PInf else NInf)"
| "divide_float NInf (Fin b) = (if 0 \<le> b then NInf else PInf)"
| "divide_float PInf PInf = NaN"
| "divide_float PInf NInf = NaN"
| "divide_float NInf PInf = NaN"
| "divide_float NInf NInf = NaN"

definition inverse_float :: "float \<Rightarrow> float" where
  "inverse_float a = divide (Fin 1) a"

fun less_float :: "float \<Rightarrow> float \<Rightarrow> bool" where
  "less_float (Fin a) (Fin b) = (a < b)"
| "less_float NaN _ = False"
| "less_float _ NaN = False"
| "less_float _ NInf = False"
| "less_float PInf _ = False"
| "less_float NInf _ = True"
| "less_float _ PInf = True"

fun less_eq_float :: "float \<Rightarrow> float \<Rightarrow> bool" where
  "less_eq_float (Fin a) (Fin b) = (a \<le> b)"
| "less_eq_float NaN _ = False"
| "less_eq_float _ NaN = False"
| "less_eq_float NInf _ = True"
| "less_eq_float _ PInf = True"
| "less_eq_float _ NInf = False"
| "less_eq_float PInf _ = False"

instance ..

end

text \<open>The C++ operator \<^verbatim>\<open>==\<close> on floats: NaN is equal to nothing, itself included.\<close>

fun feq :: "float \<Rightarrow> float \<Rightarrow> bool" where
  "feq (Fin a) (Fin b) = (a = b)"
| "feq PInf PInf = True"
| "feq NInf NInf = True"
| "feq (Fin a) PInf = False"
| "feq (Fin a) NInf = False"
| "feq PInf (Fin b) = False"
| "feq NInf (Fin b) = False"
| "feq PInf NInf = False"
| "feq NInf PInf = False"
| "feq NaN _ = False"
| "feq _ NaN = False"


section \<open>ScalarMath: \<^verbatim>\<open>EU::Math\<close> (EngineMath.h)\<close>

text \<open>
  The counters of the \<^verbatim>\<open>for\<close> loops are C++ \<^verbatim>\<open>int\<close>. A counter never leaves the range
  between its start and its bound, so no increment overflows and a mathematical integer
  behaves as the 32-bit counter does.
\<close>

text \<open>
  \<^verbatim>\<open>sqrt\<close>: \<^verbatim>\<open>if (x <= 0.f) return 0.f; float guess = x / 2.f;
  for (int i = 0; i < 10; ++i) guess = 0.5f * (guess + x / guess); return guess;\<close>
\<close>

function sqrt_loop :: "float \<Rightarrow> int \<Rightarrow> float \<Rightarrow> float" where
  "sqrt_loop x i guess =
     (if i < 10 then sqrt_loop x (i + 1) (Fin 0.5 * (guess + x / guess)) else guess)"
  by pat_completeness auto
termination
  by (relation "measure (\<lambda>(x, i, guess). nat (10 - i))") auto

declare sqrt_loop.simps [simp del]

definition Math_sqrt :: "float \<Rightarrow> float" where
  "Math_sqrt x = (if x \<le> Fin 0 then Fin 0 else sqrt_loop x 0 (x / Fin 2))"

text \<open>
  \<^verbatim>\<open>power\<close>: \<^verbatim>\<open>float result = 1.f; for (int i = 0; i < n; ++i) result *= x; return result;\<close>
\<close>

function power_loop :: "float \<Rightarrow> int \<Rightarrow> int \<Rightarrow> float \<Rightarrow> float" where
  "power_loop x n i result =
     (if i < n then power_loop x n (i + 1) (result * x) else result)"
  by pat_completeness auto
termination
  by (relation "measure (\<lambda>(x, n, i, result). nat (n - i))") auto

declare power_loop.simps [simp del]

definition Math_power :: "float \<Rightarrow> int \<Rightarrow> float" where
  "Math_power x n = power_loop x n 0 (Fin 1)"

text \<open>\<^verbatim>\<open>abs\<close>: \<^verbatim>\<open>return x < 0.f ? -x : x;\<close>\<close>

definition Math_abs :: "float \<Rightarrow> float" where
  "Math_abs x = (if x < Fin 0 then - x else x)"

text \<open>
  \<^verbatim>\<open>log\<close>: \<^verbatim>\<open>if (x <= 0.f) return 0.f; float y = (x - 1) / (x + 1); float y2 = y * y;
  float result = 0.f;
  for (int i = 1; i < 10; i += 2) result += 1.0f / static_cast<float>(i) * power(y, i);
  return 2 * result;\<close> (\<^verbatim>\<open>y2\<close> is computed and never read.)
\<close>

function log_loop :: "float \<Rightarrow> int \<Rightarrow> float \<Rightarrow> float" where
  "log_loop y i result =
     (if i < 10
      then log_loop y (i + 2) (result + Fin 1 / Fin (of_int i) * Math_power y i)
      else result)"
  by pat_completeness auto
termination
  by (relation "measure (\<lambda>(y, i, result). nat (10 - i))") auto

declare log_loop.simps [simp del]

definition Math_log :: "float \<Rightarrow> float" where
  "Math_log x =
     (if x \<le> Fin 0 then Fin 0
      else let y = (x - Fin 1) / (x + Fin 1);
               y2 = y * y
           in Fin 2 * log_loop y 1 (Fin 0))"

text \<open>
  \<^verbatim>\<open>sin\<close> and \<^verbatim>\<open>cos\<close> open with the same two loops,
  \<^verbatim>\<open>while (x > 3.14159265f) x -= 2.0f * 3.14159265f;\<close> and
  \<^verbatim>\<open>while (x < -3.14159265f) x += 2.0f * 3.14159265f;\<close>.
  Nothing bounds the number of rounds, so each loop is a partial function: \<open>None\<close> is
  the loop that never exits.
\<close>

partial_function (option) reduce_down :: "float \<Rightarrow> float option" where
  "reduce_down x =
     (if x > Fin 3.14159265 then reduce_down (x - Fin 2 * Fin 3.14159265) else Some x)"

partial_function (option) reduce_up :: "float \<Rightarrow> float option" where
  "reduce_up x =
     (if x < Fin (- 3.14159265) then reduce_up (x + Fin 2 * Fin 3.14159265) else Some x)"

declare reduce_down.simps [code]
declare reduce_up.simps [code]

definition Math_sin :: "float \<Rightarrow> float option" where
  "Math_sin x0 = do {
     x1 \<leftarrow> reduce_down x0;
     x \<leftarrow> reduce_up x1;
     let x2 = x * x;
     Some (x - (x2 * x) / Fin 6 + (x2 * x2 * x) / Fin 120 - (x2 * x2 * x2 * x) / Fin 5040)
   }"

definition Math_cos :: "float \<Rightarrow> float option" where
  "Math_cos x0 = do {
     x1 \<leftarrow> reduce_down x0;
     x \<leftarrow> reduce_up x1;
     let x2 = x * x;
     Some (Fin 1 - x2 / Fin 2 + (x2 * x2) / Fin 24 - (x2 * x2 * x2) / Fin 720)
   }"


section \<open>Vectors: \<^verbatim>\<open>CVector3\<close> and \<^verbatim>\<open>CVector2\<close>\<close>

text \<open>
  A class with public fields is a datatype whose constructor is the parameterised C++
  constructor; the selectors are the fields (\<open>v3x\<close> is \<^verbatim>\<open>CVector3::x\<close>).
\<close>

datatype CVector3 = CVector3 (v3x: float) (v3y: float) (v3z: float)

text \<open>\<^verbatim>\<open>length\<close>: \<^verbatim>\<open>return EU::Math::sqrt(x * x + y * y + z * z);\<close>\<close>

definition CVector3_length :: "CVector3 \<Rightarrow> float" where
  "CVector3_length v = Math_sqrt (v3x v * v3x v + v3y v * v3y v + v3z v * v3z v)"

text \<open>
  \<^verbatim>\<open>normalized\<close>: \<^verbatim>\<open>float len = length(); if (len == 0.f) return CVector3(0.f, 0.f, 0.f);
  return CVector3(x / len, y / len, z / len);\<close>
\<close>

definition CVector3_normalized :: "CVector3 \<Rightarrow> CVector3" where
  "CVector3_normalized v =
     (let len = CVector3_length v
      in if feq len (Fin 0) then CVector3 (Fin 0) (Fin 0) (Fin 0)
         else CVector3 (v3x v / len) (v3y v / len) (v3z v / len))"

definition CVector3_zero :: CVector3 where
  "CVector3_zero = CVector3 (Fin 0) (Fin 0) (Fin 0)"

text \<open>
  Modelled from the spec: the class \<^verbatim>\<open>CVector2\<close> (header \<^verbatim>\<open>Vectors/Vector2.h\<close>), which
  \<^verbatim>\<open>Matrix3x3::operator*\<close> takes and returns, is not among the sources. The data model
  of the specification gives it the two float attributes \<open>x\<close> and \<open>y\<close>; the call
  \<^verbatim>\<open>CVector2(x, y)\<close> in the code builds one from them.
\<close>

datatype CVector2 = CVector2 (v2x: float) (v2y: float)


section \<open>\<^verbatim>\<open>EU::Quaternion\<close>\<close>

datatype Quaternion = Quaternion (qx: float) (qy: float) (qz: float) (qw: float)

text \<open>\<^verbatim>\<open>operator==\<close>:
  \<^verbatim>\<open>return x == other.x && y == other.y && z == other.z && w == other.w;\<close>\<close>

definition Quaternion_eq :: "Quaternion \<Rightarrow> Quaternion \<Rightarrow> bool" where
  "Quaternion_eq q other =
     (feq (qx q) (qx other) \<and> feq (qy q) (qy other) \<and> feq (qz q) (qz other)
      \<and> feq (qw q) (qw other))"

text \<open>\<^verbatim>\<open>length\<close>: \<^verbatim>\<open>return Math::sqrt(x * x + y * y + z * z + w * w);\<close>\<close>

definition Quaternion_length :: "Quaternion \<Rightarrow> float" where
  "Quaternion_length q = Math_sqrt (qx q * qx q + qy q * qy q + qz q * qz q + qw q * qw q)"

text \<open>
  \<^verbatim>\<open>normalize\<close> changes the object in place:
  \<^verbatim>\<open>float len = length(); if (len == 0.f) return; x /= len; y /= len; z /= len; w /= len;\<close>
  The function returns the object as the call leaves it.
\<close>

definition Quaternion_normalize :: "Quaternion \<Rightarrow> Quaternion" where
  "Quaternion_normalize q =
     (let len = Quaternion_length q
      in if feq len (Fin 0) then q
         else Quaternion (qx q / len) (qy q / len) (qz q / len) (qw q / len))"

text \<open>
  \<^verbatim>\<open>normalized\<close>: \<^verbatim>\<open>float len = length(); if (len == 0.f) return Quaternion(0.f, 0.f, 0.f, 1.f);
  return Quaternion(x / len, y / len, z / len, w / len);\<close>
\<close>

definition Quaternion_normalized :: "Quaternion \<Rightarrow> Quaternion" where
  "Quaternion_normalized q =
     (let len = Quaternion_length q
      in if feq len (Fin 0) then Quaternion (Fin 0) (Fin 0) (Fin 0) (Fin 1)
         else Quaternion (qx q / len) (qy q / len) (qz q / len) (qw q / len))"

definition Quaternion_identity :: Quaternion where
  "Quaternion_identity = Quaternion (Fin 0) (Fin 0) (Fin 0) (Fin 1)"

text \<open>
  Which quaternions have \<^verbatim>\<open>length() == 0.f\<close> depends on rounding. In single precision the
  square of a small component underflows to 0, so \<^verbatim>\<open>length()\<close> returns 0 for
  \<open>(2\<^sup>-\<^sup>8\<^sup>0, 0, 0, 0)\<close> as well; the exact arithmetic of \<open>Quaternion_length\<close> returns 0 at
  \<open>(0, 0, 0, 0)\<close> only. The next two functions are the statements of \<^verbatim>\<open>normalize()\<close> and of
  \<^verbatim>\<open>normalized()\<close> that follow \<^verbatim>\<open>float len = length();\<close>, with the value of \<^verbatim>\<open>len\<close> as
  an argument: they say what the code does with the quaternion for any value that
  \<^verbatim>\<open>length()\<close> has returned, however the arithmetic produced it.

  \<^verbatim>\<open>normalize\<close>: \<^verbatim>\<open>if (len == 0.f) return; x /= len; y /= len; z /= len; w /= len;\<close>
\<close>

definition Quaternion_normalize_from :: "float \<Rightarrow> Quaternion \<Rightarrow> Quaternion" where
  "Quaternion_normalize_from len q =
     (if feq len (Fin 0) then q
      else Quaternion (qx q / len) (qy q / len) (qz q / len) (qw q / len))"

text \<open>
  \<^verbatim>\<open>normalized\<close>: \<^verbatim>\<open>if (len == 0.f) return Quaternion(0.f, 0.f, 0.f, 1.f);
  return Quaternion(x / len, y / len, z / len, w / len);\<close>
\<close>

definition Quaternion_normalized_from :: "float \<Rightarrow> Quaternion \<Rightarrow> Quaternion" where
  "Quaternion_normalized_from len q =
     (if feq len (Fin 0) then Quaternion (Fin 0) (Fin 0) (Fin 0) (Fin 1)
      else Quaternion (qx q / len) (qy q / len) (qz q / len) (qw q / len))"

text \<open>
  \<^verbatim>\<open>lerp\<close>: \<^verbatim>\<open>t = (t < 0.f) ? 0.f : ((t > 1.f) ? 1.f : t);
  return Quaternion(a.x + (b.x - a.x) * t, a.y + (b.y - a.y) * t, a.z + (b.z - a.z) * t,
  a.w + (b.w - a.w) * t).normalized();\<close>
\<close>

definition Quaternion_lerp :: "Quaternion \<Rightarrow> Quaternion \<Rightarrow> float \<Rightarrow> Quaternion" where
  "Quaternion_lerp a b t0 =
     (let t = (if t0 < Fin 0 then Fin 0 else (if t0 > Fin 1 then Fin 1 else t0))
      in Quaternion_normalized
           (Quaternion (qx a + (qx b - qx a) * t) (qy a + (qy b - qy a) * t)
                       (qz a + (qz b - qz a) * t) (qw a + (qw b - qw a) * t)))"


section \<open>\<^verbatim>\<open>EU::Matrix2x2\<close>\<close>

datatype Matrix2x2 = Matrix2x2 (m00: float) (m01: float) (m10: float) (m11: float)

text \<open>The default constructor: \<^verbatim>\<open>m00(1.f), m01(0.f), m10(0.f), m11(1.f)\<close>.\<close>

definition Matrix2x2_default :: Matrix2x2 where
  "Matrix2x2_default = Matrix2x2 (Fin 1) (Fin 0) (Fin 0) (Fin 1)"

definition Matrix2x2_identity :: Matrix2x2 where
  "Matrix2x2_identity = Matrix2x2_default"

text \<open>\<^verbatim>\<open>operator*(const Matrix2x2& other)\<close>\<close>

definition Matrix2x2_mul :: "Matrix2x2 \<Rightarrow> Matrix2x2 \<Rightarrow> Matrix2x2" where
  "Matrix2x2_mul M other =
     Matrix2x2 (m00 M * m00 other + m01 M * m10 other)
               (m00 M * m01 other + m01 M * m11 other)
               (m10 M * m00 other + m11 M * m10 other)
               (m10 M * m01 other + m11 M * m11 other)"

definition Matrix2x2_determinant :: "Matrix2x2 \<Rightarrow> float" where
  "Matrix2x2_determinant M = m00 M * m11 M - m01 M * m10 M"

definition Matrix2x2_transpose :: "Matrix2x2 \<Rightarrow> Matrix2x2" where
  "Matrix2x2_transpose M = Matrix2x2 (m00 M) (m10 M) (m01 M) (m11 M)"

text \<open>
  \<^verbatim>\<open>inverse\<close> is a \<^verbatim>\<open>const\<close> member: \<^verbatim>\<open>float det = determinant();
  if (det == 0.f) return Matrix2x2(); float invDet = 1.f / det;
  return Matrix2x2(m11 * invDet, -m01 * invDet, -m10 * invDet, m00 * invDet);\<close>
\<close>

definition Matrix2x2_inverse :: "Matrix2x2 \<Rightarrow> Matrix2x2" where
  "Matrix2x2_inverse M =
     (let det = Matrix2x2_determinant M
      in if feq det (Fin 0) then Matrix2x2_default
         else let invDet = Fin 1 / det
              in Matrix2x2 (m11 M * invDet) (- m01 M * invDet)
                           (- m10 M * invDet) (m00 M * invDet))"


section \<open>\<^verbatim>\<open>EU::Matrix3x3\<close>\<close>

text \<open>
  The field \<^verbatim>\<open>float m[3][3]\<close> is an array of three rows of three floats. Indices are
  loop counters below 3 or remainders modulo 3, so every access is in range; \<open>get3\<close>
  and \<open>set3\<close> send an index of 2 or more to the last cell, which no call here uses
  with an index above 2.
\<close>

datatype 'a array3 = Array3 'a 'a 'a

fun get3 :: "'a array3 \<Rightarrow> nat \<Rightarrow> 'a" where
  "get3 (Array3 a b c) i = (if i = 0 then a else if i = 1 then b else c)"

fun set3 :: "'a array3 \<Rightarrow> nat \<Rightarrow> 'a \<Rightarrow> 'a array3" where
  "set3 (Array3 a b c) i v =
     (if i = 0 then Array3 v b c else if i = 1 then Array3 a v c else Array3 a b v)"

datatype Matrix3x3 = Mat3 (m3: "float array3 array3")

text \<open>\<open>rd3 M i j\<close> reads \<^verbatim>\<open>M.m[i][j]\<close>; \<open>wr3 M i j v\<close> is \<^verbatim>\<open>M.m[i][j] = v\<close>.\<close>

definition rd3 :: "Matrix3x3 \<Rightarrow> nat \<Rightarrow> nat \<Rightarrow> float" where
  "rd3 M i j = get3 (get3 (m3 M) i) j"

definition wr3 :: "Matrix3x3 \<Rightarrow> nat \<Rightarrow> nat \<Rightarrow> float \<Rightarrow> Matrix3x3" where
  "wr3 M i j v = Mat3 (set3 (m3 M) i (set3 (get3 (m3 M) i) j v))"

text \<open>The constructor with nine values assigns them row by row.\<close>

definition Matrix3x3 ::
  "float \<Rightarrow> float \<Rightarrow> float \<Rightarrow> float \<Rightarrow> float \<Rightarrow> float \<Rightarrow> float \<Rightarrow> float \<Rightarrow> float \<Rightarrow> Matrix3x3"
where
  "Matrix3x3 a00 a01 a02 a10 a11 a12 a20 a21 a22 =
     Mat3 (Array3 (Array3 a00 a01 a02) (Array3 a10 a11 a12) (Array3 a20 a21 a22))"

definition Matrix3x3_identity :: Matrix3x3 where
  "Matrix3x3_identity =
     Matrix3x3 (Fin 1) (Fin 0) (Fin 0)  (Fin 0) (Fin 1) (Fin 0)  (Fin 0) (Fin 0) (Fin 1)"

definition Matrix3x3_zero :: Matrix3x3 where
  "Matrix3x3_zero =
     Matrix3x3 (Fin 0) (Fin 0) (Fin 0)  (Fin 0) (Fin 0) (Fin 0)  (Fin 0) (Fin 0) (Fin 0)"

text \<open>The default constructor calls \<^verbatim>\<open>setIdentity()\<close>, which assigns the nine entries
  of the identity.\<close>

definition Matrix3x3_default :: Matrix3x3 where
  "Matrix3x3_default =
     Matrix3x3 (Fin 1) (Fin 0) (Fin 0)  (Fin 0) (Fin 1) (Fin 0)  (Fin 0) (Fin 0) (Fin 1)"

text \<open>
  \<^verbatim>\<open>operator*(float scalar)\<close>: \<^verbatim>\<open>Matrix3x3 r; for (int i = 0; i < 3; ++i)
  for (int j = 0; j < 3; ++j) r.m[i][j] = m[i][j] * scalar; return r;\<close>
  A \<^verbatim>\<open>for\<close> loop from 0 below 3 is a fold over \<open>[0..<3]\<close>.
\<close>

definition Matrix3x3_scale :: "Matrix3x3 \<Rightarrow> float \<Rightarrow> Matrix3x3" where
  "Matrix3x3_scale M scalar =
     fold (\<lambda>i r. fold (\<lambda>j r. wr3 r i j (rd3 M i j * scalar)) [0..<3] r) [0..<3]
       Matrix3x3_default"

text \<open>
  \<^verbatim>\<open>operator*(const Matrix3x3& o)\<close>: \<^verbatim>\<open>Matrix3x3 r = zero();
  for (int row = 0; row < 3; ++row) for (int col = 0; col < 3; ++col)
  for (int k = 0; k < 3; ++k) r.m[row][col] += m[row][k] * o.m[k][col]; return r;\<close>
\<close>

definition Matrix3x3_mul :: "Matrix3x3 \<Rightarrow> Matrix3x3 \<Rightarrow> Matrix3x3" where
  "Matrix3x3_mul M o' =
     fold (\<lambda>row r.
        fold (\<lambda>col r.
          fold (\<lambda>k r. wr3 r row col (rd3 r row col + rd3 M row k * rd3 o' k col))
            [0..<3] r)
          [0..<3] r)
       [0..<3] Matrix3x3_zero"

text \<open>
  \<^verbatim>\<open>operator*(const CVector2& vec)\<close>:
  \<^verbatim>\<open>float x = m[0][0] * vec.x + m[0][1] * vec.y + m[0][2] * 1.0f;\<close> and likewise \<open>y\<close>
  from row 1 and \<open>w\<close> from row 2; \<^verbatim>\<open>if (w != 0.0f) { x /= w; y /= w; }
  return CVector2(x, y);\<close>
\<close>

definition Matrix3x3_mul_CVector2 :: "Matrix3x3 \<Rightarrow> CVector2 \<Rightarrow> CVector2" where
  "Matrix3x3_mul_CVector2 M vec =
     (let x = rd3 M 0 0 * v2x vec + rd3 M 0 1 * v2y vec + rd3 M 0 2 * Fin 1;
          y = rd3 M 1 0 * v2x vec + rd3 M 1 1 * v2y vec + rd3 M 1 2 * Fin 1;
          w = rd3 M 2 0 * v2x vec + rd3 M 2 1 * v2y vec + rd3 M 2 2 * Fin 1
      in if \<not> feq w (Fin 0) then CVector2 (x / w) (y / w) else CVector2 x y)"

text \<open>\<^verbatim>\<open>operator*(const CVector3& vec)\<close>\<close>

definition Matrix3x3_mul_CVector3 :: "Matrix3x3 \<Rightarrow> CVector3 \<Rightarrow> CVector3" where
  "Matrix3x3_mul_CVector3 M vec =
     CVector3 (rd3 M 0 0 * v3x vec + rd3 M 0 1 * v3y vec + rd3 M 0 2 * v3z vec)
              (rd3 M 1 0 * v3x vec + rd3 M 1 1 * v3y vec + rd3 M 1 2 * v3z vec)
              (rd3 M 2 0 * v3x vec + rd3 M 2 1 * v3y vec + rd3 M 2 2 * v3z vec)"

definition Matrix3x3_determinant :: "Matrix3x3 \<Rightarrow> float" where
  "Matrix3x3_determinant M =
     rd3 M 0 0 * (rd3 M 1 1 * rd3 M 2 2 - rd3 M 1 2 * rd3 M 2 1) -
     rd3 M 0 1 * (rd3 M 1 0 * rd3 M 2 2 - rd3 M 1 2 * rd3 M 2 0) +
     rd3 M 0 2 * (rd3 M 1 0 * rd3 M 2 1 - rd3 M 1 1 * rd3 M 2 0)"

definition Matrix3x3_transpose :: "Matrix3x3 \<Rightarrow> Matrix3x3" where
  "Matrix3x3_transpose M =
     Matrix3x3 (rd3 M 0 0) (rd3 M 1 0) (rd3 M 2 0)
               (rd3 M 0 1) (rd3 M 1 1) (rd3 M 2 1)
               (rd3 M 0 2) (rd3 M 1 2) (rd3 M 2 2)"

text \<open>
  \<^verbatim>\<open>cofactor\<close>: \<^verbatim>\<open>int r1 = (row + 1) % 3, r2 = (row + 2) % 3;
  int c1 = (col + 1) % 3, c2 = (col + 2) % 3;
  float minor = m[r1][c1] * m[r2][c2] - m[r1][c2] * m[r2][c1];
  return ((row + col) % 2 == 0) ? minor : -minor;\<close>
  It is called with \<open>row\<close> and \<open>col\<close> from 0 to 2 only.
\<close>

definition Matrix3x3_cofactor :: "Matrix3x3 \<Rightarrow> nat \<Rightarrow> nat \<Rightarrow> float" where
  "Matrix3x3_cofactor M row col =
     (let r1 = (row + 1) mod 3; r2 = (row + 2) mod 3;
          c1 = (col + 1) mod 3; c2 = (col + 2) mod 3;
          minor = rd3 M r1 c1 * rd3 M r2 c2 - rd3 M r1 c2 * rd3 M r2 c1
      in if (row + col) mod 2 = 0 then minor else - minor)"

definition Matrix3x3_cofactorMatrix :: "Matrix3x3 \<Rightarrow> Matrix3x3" where
  "Matrix3x3_cofactorMatrix M =
     Matrix3x3
       (Matrix3x3_cofactor M 0 0) (Matrix3x3_cofactor M 0 1) (Matrix3x3_cofactor M 0 2)
       (Matrix3x3_cofactor M 1 0) (Matrix3x3_cofactor M 1 1) (Matrix3x3_cofactor M 1 2)
       (Matrix3x3_cofactor M 2 0) (Matrix3x3_cofactor M 2 1) (Matrix3x3_cofactor M 2 2)"

definition Matrix3x3_adjugate :: "Matrix3x3 \<Rightarrow> Matrix3x3" where
  "Matrix3x3_adjugate M = Matrix3x3_transpose (Matrix3x3_cofactorMatrix M)"

text \<open>
  \<^verbatim>\<open>inverse\<close> is a \<^verbatim>\<open>const\<close> member: \<^verbatim>\<open>float det = determinant();
  if (det == 0.f) return identity(); return adjugate() * (1.f / det);\<close>
\<close>

definition Matrix3x3_inverse :: "Matrix3x3 \<Rightarrow> Matrix3x3" where
  "Matrix3x3_inverse M =
     (let det = Matrix3x3_determinant M
      in if feq det (Fin 0) then Matrix3x3_identity
         else Matrix3x3_scale (Matrix3x3_adjugate M) (Fin 1 / det))"


section \<open>\<^verbatim>\<open>EngineUtilities::Matrix4x4\<close>\<close>

datatype 'a array4 = Array4 'a 'a 'a 'a

fun get4 :: "'a array4 \<Rightarrow> nat \<Rightarrow> 'a" where
  "get4 (Array4 a b c d) i = (if i = 0 then a else if i = 1 then b else if i = 2 then c else d)"

fun set4 :: "'a array4 \<Rightarrow> nat \<Rightarrow> 'a \<Rightarrow> 'a array4" where
  "set4 (Array4 a b c d) i v =
     (if i = 0 then Array4 v b c d else if i = 1 then Array4 a v c d
      else if i = 2 then Array4 a b v d else Array4 a b c v)"

datatype Matrix4x4 = Mat4 (m4: "float array4 array4")

definition rd4 :: "Matrix4x4 \<Rightarrow> nat \<Rightarrow> nat \<Rightarrow> float" where
  "rd4 M i j = get4 (get4 (m4 M) i) j"

definition wr4 :: "Matrix4x4 \<Rightarrow> nat \<Rightarrow> nat \<Rightarrow> float \<Rightarrow> Matrix4x4" where
  "wr4 M i j v = Mat4 (set4 (m4 M) i (set4 (get4 (m4 M) i) j v))"

text \<open>
  The storage of a \<^verbatim>\<open>Matrix4x4\<close> before its constructor body runs. C++ leaves it
  indeterminate; the constructor assigns all sixteen entries, so the content chosen
  here never reaches a result.
\<close>

definition Matrix4x4_storage :: Matrix4x4 where
  "Matrix4x4_storage =
     Mat4 (Array4 (Array4 NaN NaN NaN NaN) (Array4 NaN NaN NaN NaN)
                  (Array4 NaN NaN NaN NaN) (Array4 NaN NaN NaN NaN))"

text \<open>
  The constructor \<^verbatim>\<open>Matrix4x4(float diag = 1.0f)\<close>: \<^verbatim>\<open>for (int i = 0; i < 4; ++i)
  for (int j = 0; j < 4; ++j) m[i][j] = (i == j) ? diag : 0.0f;\<close>
\<close>

definition Matrix4x4 :: "float \<Rightarrow> Matrix4x4" where
  "Matrix4x4 diag =
     fold (\<lambda>i r. fold (\<lambda>j r. wr4 r i j (if i = j then diag else Fin 0)) [0..<4] r) [0..<4]
       Matrix4x4_storage"

text \<open>
  \<^verbatim>\<open>transpose\<close>: \<^verbatim>\<open>Matrix4x4 result; for (int i = 0; i < 4; ++i)
  for (int j = 0; j < 4; ++j) result.m[i][j] = m[j][i]; return result;\<close>
\<close>

definition Matrix4x4_transpose :: "Matrix4x4 \<Rightarrow> Matrix4x4" where
  "Matrix4x4_transpose M =
     fold (\<lambda>i result. fold (\<lambda>j result. wr4 result i j (rd4 M j i)) [0..<4] result) [0..<4]
       (Matrix4x4 (Fin 1))"


section \<open>Float arithmetic: facts\<close>

lemma PInf_minus_Fin: "PInf - Fin a = PInf"
  by (simp add: minus_float_def)

lemma NInf_plus_Fin: "NInf + Fin a = NInf"
  by simp

lemma Fin_minus_Fin: "Fin a - Fin b = Fin (a - b)"
  by (simp add: minus_float_def)

lemma Math_abs_Fin: "Math_abs (Fin a - Fin b) = Fin \<bar>a - b\<bar>"
  by (simp add: Math_abs_def minus_float_def)

lemma upt3: "[0..<3] = [0, 1, 2]"
  by (simp add: upt_rec)

lemma upt4: "[0..<4] = [0, 1, 2, 3]"
  by (simp add: upt_rec)


section \<open>ScalarMath: results\<close>

text \<open>
  C10. For every float \<open>x\<close> and every integer \<open>n \<le> 0\<close>, \<^verbatim>\<open>EU::Math::power(x, n)\<close> returns
  exactly 1: the loop test \<open>i < n\<close> fails at \<open>i = 0\<close>, the body never runs, so a negative
  exponent computes no reciprocal and a zero exponent gives 1 for every base, zero,
  the infinities and NaN included.
\<close>

theorem power_nonpositive_exponent:
  assumes "n \<le> 0"
  shows "Math_power x n = Fin 1"
  unfolding Math_power_def using assms by (subst power_loop.simps) simp

theorem power_nonpositive_exponent_witness:
  "(-3::int) \<le> 0 \<and> Math_power (Fin 0) (-3) = Fin 1 \<and> Math_power NaN 0 = Fin 1"
  using power_nonpositive_exponent [of "-3" "Fin 0"] power_nonpositive_exponent [of 0 NaN]
  by simp

text \<open>
  C8. For every float \<open>x \<le> 0\<close> (negative infinity included; NaN is not below zero),
  \<^verbatim>\<open>EU::Math::sqrt(x)\<close> returns 0 and \<^verbatim>\<open>EU::Math::log(x)\<close> returns 0: both functions
  open with \<^verbatim>\<open>if (x <= 0.f) return 0.f;\<close>, so a value outside the domain gives the
  sentinel 0 and neither an error nor a NaN.
\<close>

theorem sqrt_log_nonpositive:
  assumes "x \<le> Fin 0"
  shows "Math_sqrt x = Fin 0 \<and> Math_log x = Fin 0"
  using assms by (simp add: Math_sqrt_def Math_log_def)

theorem sqrt_log_nonpositive_witness:
  "Fin (- 4) \<le> Fin 0 \<and> Math_sqrt (Fin (- 4)) = Fin 0 \<and> Math_log (Fin (- 4)) = Fin 0
   \<and> NInf \<le> Fin 0 \<and> Math_sqrt NInf = Fin 0 \<and> Math_log NInf = Fin 0"
  using sqrt_log_nonpositive [of "Fin (- 4)"] sqrt_log_nonpositive [of NInf]
  by simp

subsection \<open>The range reduction of \<^verbatim>\<open>sin\<close> and \<^verbatim>\<open>cos\<close>\<close>

lemma reduce_down_Some_finite:
  assumes "reduce_down x = Some y"
  shows "x \<noteq> PInf"
proof (rule reduce_down.raw_induct [where P = "\<lambda>x y. x \<noteq> PInf", OF _ assms])
  fix f x y
  assume IH: "\<And>x y. f x = Some y \<Longrightarrow> x \<noteq> PInf"
    and step: "(if x > Fin 3.14159265 then f (x - Fin 2 * Fin 3.14159265) else Some x) = Some y"
  show "x \<noteq> PInf"
  proof
    assume "x = PInf"
    with step have "f PInf = Some y" by (simp add: PInf_minus_Fin)
    then have "PInf \<noteq> PInf" by (rule IH)
    then show False by simp
  qed
qed

lemma reduce_down_PInf: "reduce_down PInf = None"
proof (cases "reduce_down PInf")
  case None
  then show ?thesis .
next
  case (Some y)
  then have "PInf \<noteq> PInf" by (rule reduce_down_Some_finite)
  then show ?thesis by simp
qed

lemma reduce_up_Some_finite:
  assumes "reduce_up x = Some y"
  shows "x \<noteq> NInf"
proof (rule reduce_up.raw_induct [where P = "\<lambda>x y. x \<noteq> NInf", OF _ assms])
  fix f x y
  assume IH: "\<And>x y. f x = Some y \<Longrightarrow> x \<noteq> NInf"
    and step:
      "(if x < Fin (- 3.14159265) then f (x + Fin 2 * Fin 3.14159265) else Some x) = Some y"
  show "x \<noteq> NInf"
  proof
    assume "x = NInf"
    with step have "f NInf = Some y" by simp
    then have "NInf \<noteq> NInf" by (rule IH)
    then show False by simp
  qed
qed

lemma reduce_up_NInf: "reduce_up NInf = None"
proof (cases "reduce_up NInf")
  case None
  then show ?thesis .
next
  case (Some y)
  then have "NInf \<noteq> NInf" by (rule reduce_up_Some_finite)
  then show ?thesis by simp
qed

lemma reduce_down_NInf: "reduce_down NInf = Some NInf"
  by (subst reduce_down.simps) simp

text \<open>A finite argument above the interval takes one round per \<open>2 * 3.14159265\<close>.\<close>

lemma reduce_down_7: "reduce_down (Fin 7) = Some (Fin (7 - 2 * 3.14159265))"
  by (subst reduce_down.simps, simp add: Fin_minus_Fin, subst reduce_down.simps, simp)

text \<open>On NaN both loop tests are false at once, and the polynomial is evaluated on NaN.\<close>

lemma sin_cos_NaN: "Math_sin NaN = Some NaN \<and> Math_cos NaN = Some NaN"
  by (simp add: Math_sin_def Math_cos_def reduce_down.simps [of NaN] reduce_up.simps [of NaN]
        minus_float_def)

text \<open>
  C2. The claim is that \<^verbatim>\<open>EU::Math::sin(x)\<close> and \<^verbatim>\<open>EU::Math::cos(x)\<close> terminate for
  every float \<open>x\<close>, the infinities included. They do not: at \<open>x = +\<infinity>\<close> the first loop
  tests \<open>x > 3.14159265\<close>, subtracts \<open>2 * 3.14159265\<close>, and has \<open>+\<infinity>\<close> again, so it never
  exits; at \<open>x = -\<infinity>\<close> the first loop exits at once and the second never does. The
  theorem evaluates the four calls: none returns. (In single precision the same happens
  at a finite \<open>x\<close> so large that \<open>x - 2 * 3.14159265\<close> rounds back to \<open>x\<close>; the exact
  arithmetic of the model does not show that case.)
\<close>

theorem sin_cos_diverge_at_infinity:
  "Math_sin PInf = None \<and> Math_cos PInf = None \<and> Math_sin NInf = None \<and> Math_cos NInf = None"
  by (simp add: Math_sin_def Math_cos_def reduce_down_PInf reduce_down_NInf reduce_up_NInf)


section \<open>Newton's iteration in \<^verbatim>\<open>sqrt\<close>\<close>

text \<open>
  One round of the loop maps a positive guess \<open>g\<close> to \<open>(g + s / g) / 2\<close>. The square of
  the new guess exceeds \<open>s\<close> by \<open>(g\<^sup>2 - s)\<^sup>2 / (4 g\<^sup>2)\<close>: the relative excess of the
  square at least quarters in every round and squares once it is below one.
\<close>

lemma newton_pos:
  fixes s g :: real
  assumes "0 < s" "0 < g"
  shows "0 < (g + s / g) / 2"
  using assms by (simp add: add_pos_pos)

lemma newton_ge_half:
  fixes s g :: real
  assumes "0 < s" "0 < g"
  shows "g / 2 \<le> (g + s / g) / 2"
  using assms by simp

lemma newton_sq_diff:
  fixes s g :: real
  assumes "0 < g"
  shows "((g + s / g) / 2)\<^sup>2 - s = (g\<^sup>2 - s)\<^sup>2 / (4 * g\<^sup>2)"
  using assms by (simp add: field_simps power2_eq_square)

lemma newton_sq_ge:
  fixes s g :: real
  assumes "0 < g"
  shows "s \<le> ((g + s / g) / 2)\<^sup>2"
proof -
  have "0 \<le> (g\<^sup>2 - s)\<^sup>2 / (4 * g\<^sup>2)" by simp
  with newton_sq_diff [OF assms, of s] show ?thesis by linarith
qed

lemma newton_le:
  fixes s g :: real
  assumes "0 < s" "0 < g" "s \<le> g\<^sup>2"
  shows "(g + s / g) / 2 \<le> g"
proof -
  have "s / g \<le> g" using assms by (simp add: field_simps power2_eq_square)
  then show ?thesis by simp
qed

lemma newton_quarter:
  fixes s g b :: real
  assumes "0 < s" "0 < g" "s \<le> g\<^sup>2" "g\<^sup>2 \<le> s * (1 + b)"
  shows "((g + s / g) / 2)\<^sup>2 \<le> s * (1 + b / 4)"
proof -
  define d where "d = g\<^sup>2 - s"
  define q where "q = g\<^sup>2"
  have d0: "0 \<le> d" and d1: "d \<le> s * b" and dq: "d \<le> q" and q0: "0 < q"
    using assms by (simp_all add: d_def q_def algebra_simps)
  have "d * d \<le> d * q" using dq d0 by (rule mult_left_mono)
  then have "d * d / (4 * q) \<le> d * q / (4 * q)"
    using q0 by (intro divide_right_mono) simp_all
  also have "d * q / (4 * q) = d / 4" using q0 by simp
  also have "d / 4 \<le> s * b / 4" using d1 by simp
  finally have "d\<^sup>2 / (4 * q) \<le> s * b / 4" by (simp add: power2_eq_square)
  then have "((g + s / g) / 2)\<^sup>2 - s \<le> s * b / 4"
    using newton_sq_diff [OF assms(2), of s] by (simp add: d_def q_def)
  then show ?thesis by (simp add: algebra_simps)
qed

lemma newton_square:
  fixes s g b :: real
  assumes "0 < s" "0 < g" "s \<le> g\<^sup>2" "g\<^sup>2 \<le> s * (1 + b)"
  shows "((g + s / g) / 2)\<^sup>2 \<le> s * (1 + b\<^sup>2 / 4)"
proof -
  let ?d = "g\<^sup>2 - s"
  have d0: "0 \<le> ?d" and d1: "?d \<le> s * b" using assms by (simp_all add: algebra_simps)
  have b0: "0 \<le> s * b" using d0 d1 by linarith
  have "?d * ?d \<le> (s * b) * (s * b)" using d0 d1 b0 by (intro mult_mono) simp_all
  then have dd: "?d\<^sup>2 \<le> s * (s * b\<^sup>2)" by (simp add: power2_eq_square algebra_simps)
  have "s * (s * b\<^sup>2) \<le> g\<^sup>2 * (s * b\<^sup>2)"
    using assms(1,3) by (intro mult_right_mono) simp_all
  with dd have "?d\<^sup>2 \<le> g\<^sup>2 * (s * b\<^sup>2)" by linarith
  then have "?d\<^sup>2 / (4 * g\<^sup>2) \<le> s * b\<^sup>2 / 4"
    using assms(2) by (simp add: field_simps)
  then have "((g + s / g) / 2)\<^sup>2 - s \<le> s * b\<^sup>2 / 4"
    using newton_sq_diff [OF assms(2), of s] by simp
  then show ?thesis by (simp add: algebra_simps)
qed

lemma iter_pos:
  fixes s g :: real
  assumes "0 < s" "0 < g"
  shows "0 < ((\<lambda>g. (g + s / g) / 2) ^^ n) g"
proof (induction n)
  case 0
  show ?case using assms by simp
next
  case (Suc n)
  let ?h = "((\<lambda>g. (g + s / g) / 2) ^^ n) g"
  have "0 < (?h + s / ?h) / 2" using assms(1) Suc by (rule newton_pos)
  then show ?case by simp
qed

lemma iter_lower:
  fixes s g :: real
  assumes "0 < s" "0 < g"
  shows "g / 2 ^ n \<le> ((\<lambda>g. (g + s / g) / 2) ^^ n) g"
proof (induction n)
  case 0
  show ?case by simp
next
  case (Suc n)
  let ?h = "((\<lambda>g. (g + s / g) / 2) ^^ n) g"
  have "0 < ?h" using assms by (rule iter_pos)
  then have "?h / 2 \<le> (?h + s / ?h) / 2" using assms(1) by (intro newton_ge_half)
  moreover have "g / 2 ^ Suc n = (g / 2 ^ n) / 2" by simp
  ultimately show ?case using Suc by simp
qed

lemma iter_decr:
  fixes s g :: real
  assumes "0 < s" "0 < g" "s \<le> g\<^sup>2"
  shows "s \<le> (((\<lambda>g. (g + s / g) / 2) ^^ n) g)\<^sup>2 \<and> ((\<lambda>g. (g + s / g) / 2) ^^ n) g \<le> g"
proof (induction n)
  case 0
  show ?case using assms by simp
next
  case (Suc n)
  let ?h = "((\<lambda>g. (g + s / g) / 2) ^^ n) g"
  have h: "0 < ?h" using assms(1,2) by (rule iter_pos)
  have "(?h + s / ?h) / 2 \<le> ?h" using assms(1) h Suc by (intro newton_le) simp_all
  moreover have "s \<le> ((?h + s / ?h) / 2)\<^sup>2" using h by (rule newton_sq_ge)
  ultimately show ?case using Suc by simp
qed

lemma iter_quarter:
  fixes s g b :: real
  assumes "0 < s" "0 < g" "s \<le> g\<^sup>2" "g\<^sup>2 \<le> s * (1 + b)"
  shows "(((\<lambda>g. (g + s / g) / 2) ^^ n) g)\<^sup>2 \<le> s * (1 + b / 4 ^ n)"
proof (induction n)
  case 0
  show ?case using assms by simp
next
  case (Suc n)
  let ?h = "((\<lambda>g. (g + s / g) / 2) ^^ n) g"
  have h: "0 < ?h" using assms(1,2) by (rule iter_pos)
  have ge: "s \<le> ?h\<^sup>2" using iter_decr [OF assms(1-3), of n] by simp
  have "((?h + s / ?h) / 2)\<^sup>2 \<le> s * (1 + (b / 4 ^ n) / 4)"
    using assms(1) h ge Suc by (rule newton_quarter)
  then show ?case by (simp add: mult.commute)
qed

lemma funpow_10_split: "(f ^^ 10) x = f (f (f (f ((f ^^ 5) (f x)))))"
  by (simp add: numeral_eq_Suc)

lemma funpow_10_split2: "(f ^^ 10) x = (f ^^ 8) (f (f x))"
  by (simp add: numeral_eq_Suc)

lemma sqrt_loop_step:
  "i < 10 \<Longrightarrow> sqrt_loop x i guess = sqrt_loop x (i + 1) (Fin 0.5 * (guess + x / guess))"
  by (subst sqrt_loop.simps) simp

lemma sqrt_loop_exit: "sqrt_loop x 10 guess = guess"
  by (subst sqrt_loop.simps) simp

lemma newton_Fin: "g \<noteq> 0 \<Longrightarrow> Fin 0.5 * (Fin g + Fin s / Fin g) = Fin ((g + s / g) / 2)"
  by simp

text \<open>On a positive finite input the loop runs the real iteration ten times from \<open>s / 2\<close>.\<close>

lemma sqrt_loop_funpow:
  assumes "0 < s" "0 < g" "n \<le> 10"
  shows "sqrt_loop (Fin s) (10 - int n) (Fin g) = Fin (((\<lambda>g. (g + s / g) / 2) ^^ n) g)"
  using assms(2,3)
proof (induction n arbitrary: g)
  case 0
  show ?case by (simp add: sqrt_loop_exit)
next
  case (Suc n)
  have pos: "0 < (g + s / g) / 2" using assms(1) Suc.prems(1) by (rule newton_pos)
  have i: "10 - int (Suc n) < 10" and i': "10 - int (Suc n) + 1 = 10 - int n" by simp_all
  have "sqrt_loop (Fin s) (10 - int (Suc n)) (Fin g) =
        sqrt_loop (Fin s) (10 - int n) (Fin 0.5 * (Fin g + Fin s / Fin g))"
    using sqrt_loop_step [OF i, of "Fin s" "Fin g"] by (simp only: i')
  also have "Fin 0.5 * (Fin g + Fin s / Fin g) = Fin ((g + s / g) / 2)"
    using Suc.prems(1) by (intro newton_Fin) simp
  also have "sqrt_loop (Fin s) (10 - int n) (Fin ((g + s / g) / 2)) =
             Fin (((\<lambda>g. (g + s / g) / 2) ^^ n) ((g + s / g) / 2))"
    using pos Suc.prems(2) by (intro Suc.IH) simp_all
  also have "((\<lambda>g. (g + s / g) / 2) ^^ n) ((g + s / g) / 2) =
             ((\<lambda>g. (g + s / g) / 2) ^^ Suc n) g"
    by (simp only: funpow_Suc_right o_apply)
  finally show ?case .
qed

lemma Math_sqrt_Fin:
  assumes "0 < s"
  shows "Math_sqrt (Fin s) = Fin (((\<lambda>g. (g + s / g) / 2) ^^ 10) (s / 2))"
  using assms sqrt_loop_funpow [of s "s / 2" 10] by (simp add: Math_sqrt_def)

text \<open>
  For \<open>s\<close> between \<open>1/100\<close> and \<open>10000\<close> ten rounds are enough: the square of the result
  exceeds \<open>s\<close> by a relative \<open>2\<^sup>-\<^sup>3\<^sup>0\<close> at most.
\<close>

lemma Math_sqrt_accuracy:
  assumes lo: "1 / 100 \<le> s" and hi: "s \<le> 10000"
  obtains g where "Math_sqrt (Fin s) = Fin g" "0 < g" "s \<le> g\<^sup>2" "g\<^sup>2 \<le> s * (1 + 1 / 2 ^ 30)"
proof -
  define N where "N = (\<lambda>g::real. (g + s / g) / 2)"
  have s0: "0 < s" using lo by simp
  define g1 where "g1 = N (s / 2)"
  define g6 where "g6 = (N ^^ 5) g1"
  define g7 where "g7 = N g6"
  define g8 where "g8 = N g7"
  define g9 where "g9 = N g8"
  define g10 where "g10 = N g9"
  have g1: "g1 = s / 4 + 1" using s0 by (simp add: g1_def N_def field_simps)
  have p1: "0 < g1" using s0 by (simp add: g1 add_pos_pos)
  have l1: "s \<le> g1\<^sup>2"
  proof -
    have "g1\<^sup>2 - s = (s / 4 - 1)\<^sup>2" by (simp add: g1 power2_eq_square algebra_simps)
    then show ?thesis using zero_le_power2 [of "s / 4 - 1"] by linarith
  qed
  have u1: "g1\<^sup>2 \<le> s * (1 + 1024)"
  proof -
    have a: "s * s \<le> 10000 * s" using hi s0 by (intro mult_right_mono) simp_all
    have b: "g1\<^sup>2 = s * s / 16 + s / 2 + 1" by (simp add: g1 power2_eq_square algebra_simps)
    have "s * s / 16 + s / 2 + 1 \<le> 1025 * s" using a lo by linarith
    then show ?thesis by (simp add: b)
  qed
  have p6: "0 < g6" unfolding g6_def N_def using s0 p1 by (rule iter_pos)
  have l6: "s \<le> g6\<^sup>2" unfolding g6_def N_def using iter_decr [OF s0 p1 l1, of 5] by simp
  have u6: "g6\<^sup>2 \<le> s * (1 + 1)"
    unfolding g6_def N_def using iter_quarter [OF s0 p1 l1 u1, of 5] by simp
  have p7: "0 < g7" unfolding g7_def N_def using s0 p6 by (rule newton_pos)
  have l7: "s \<le> g7\<^sup>2" unfolding g7_def N_def using p6 by (rule newton_sq_ge)
  have u7: "g7\<^sup>2 \<le> s * (1 + 1 / 4)"
    unfolding g7_def N_def using newton_square [OF s0 p6 l6 u6] by simp
  have p8: "0 < g8" unfolding g8_def N_def using s0 p7 by (rule newton_pos)
  have l8: "s \<le> g8\<^sup>2" unfolding g8_def N_def using p7 by (rule newton_sq_ge)
  have u8: "g8\<^sup>2 \<le> s * (1 + 1 / 64)"
    unfolding g8_def N_def using newton_square [OF s0 p7 l7 u7] by (simp add: power2_eq_square)
  have p9: "0 < g9" unfolding g9_def N_def using s0 p8 by (rule newton_pos)
  have l9: "s \<le> g9\<^sup>2" unfolding g9_def N_def using p8 by (rule newton_sq_ge)
  have u9: "g9\<^sup>2 \<le> s * (1 + 1 / 16384)"
    unfolding g9_def N_def using newton_square [OF s0 p8 l8 u8] by (simp add: power2_eq_square)
  have p10: "0 < g10" unfolding g10_def N_def using s0 p9 by (rule newton_pos)
  have l10: "s \<le> g10\<^sup>2" unfolding g10_def N_def using p9 by (rule newton_sq_ge)
  have u10: "g10\<^sup>2 \<le> s * (1 + 1 / 2 ^ 30)"
    unfolding g10_def N_def using newton_square [OF s0 p9 l9 u9] by (simp add: power2_eq_square)
  have "Math_sqrt (Fin s) = Fin ((N ^^ 10) (s / 2))"
    unfolding N_def using s0 by (rule Math_sqrt_Fin)
  also have "(N ^^ 10) (s / 2) = g10"
    by (simp only: funpow_10_split g10_def g9_def g8_def g7_def g6_def g1_def)
  finally show thesis using that p10 l10 u10 by blast
qed

lemma Math_sqrt_4: "Math_sqrt (Fin 4) = Fin 2"
  by (simp add: Math_sqrt_def sqrt_loop.simps)


section \<open>\<^verbatim>\<open>CVector3::normalized\<close>\<close>

lemma CVector3_length_Fin:
  "CVector3_length (CVector3 (Fin x) (Fin y) (Fin z)) = Math_sqrt (Fin (x * x + y * y + z * z))"
  by (simp add: CVector3_length_def)

lemma CVector3_normalized_Fin:
  assumes "CVector3_length (CVector3 (Fin x) (Fin y) (Fin z)) = Fin g" "g \<noteq> 0"
  shows "CVector3_normalized (CVector3 (Fin x) (Fin y) (Fin z)) =
         CVector3 (Fin (x / g)) (Fin (y / g)) (Fin (z / g))"
  using assms by (simp add: CVector3_normalized_def)

text \<open>The second half of C3: the zero vector has length 0 and is returned as it is.\<close>

lemma normalized_zero: "CVector3_normalized CVector3_zero = CVector3_zero"
  by (simp add: CVector3_normalized_def CVector3_zero_def CVector3_length_def Math_sqrt_def
        Let_def)

text \<open>
  Where ten rounds are enough the first half of C3 holds, in exact arithmetic: for a
  vector with finite components whose Euclidean length is between \<open>1/10\<close> and \<open>100\<close>, the
  computed length of the normalised vector is within \<open>10\<^sup>-\<^sup>5\<close> of 1.
\<close>

lemma normalized_length_in_range:
  assumes lo: "1 / 100 \<le> x\<^sup>2 + y\<^sup>2 + z\<^sup>2" and hi: "x\<^sup>2 + y\<^sup>2 + z\<^sup>2 \<le> 10000"
  shows "Math_abs (CVector3_length (CVector3_normalized (CVector3 (Fin x) (Fin y) (Fin z)))
                   - Fin 1) \<le> Fin (1 / 100000)"
proof -
  define s where "s = x * x + y * y + z * z"
  have s: "s = x\<^sup>2 + y\<^sup>2 + z\<^sup>2" by (simp add: s_def power2_eq_square)
  obtain g where g: "Math_sqrt (Fin s) = Fin g" "0 < g" "s \<le> g\<^sup>2" "g\<^sup>2 \<le> s * (1 + 1 / 2 ^ 30)"
    using Math_sqrt_accuracy [of s] lo hi s by auto
  have len: "CVector3_length (CVector3 (Fin x) (Fin y) (Fin z)) = Fin g"
    by (simp only: CVector3_length_Fin s_def [symmetric] g(1))
  have nrm: "CVector3_normalized (CVector3 (Fin x) (Fin y) (Fin z)) =
             CVector3 (Fin (x / g)) (Fin (y / g)) (Fin (z / g))"
    using len g(2) by (intro CVector3_normalized_Fin) simp_all
  define s2 where "s2 = (x / g) * (x / g) + (y / g) * (y / g) + (z / g) * (z / g)"
  have s2: "s2 = s / g\<^sup>2" by (simp add: s2_def s_def power2_eq_square add_divide_distrib)
  have g2: "0 < g\<^sup>2" using g(2) by simp
  have s2_hi: "s2 \<le> 1" using g(3) g2 by (simp add: s2)
  have s2_lo: "1 / (1 + 1 / 2 ^ 30) \<le> s2"
  proof -
    have "g\<^sup>2 / (1 + 1 / 2 ^ 30) \<le> s" using g(4) by (simp add: field_simps)
    then have "g\<^sup>2 / (1 + 1 / 2 ^ 30) / g\<^sup>2 \<le> s / g\<^sup>2"
      using g2 by (intro divide_right_mono) simp_all
    then show ?thesis using g2 by (simp add: s2)
  qed
  have "1 / 100 \<le> s2" using s2_lo by simp
  moreover have "s2 \<le> 10000" using s2_hi by simp
  ultimately obtain G where G: "Math_sqrt (Fin s2) = Fin G" "0 < G" "s2 \<le> G\<^sup>2"
      "G\<^sup>2 \<le> s2 * (1 + 1 / 2 ^ 30)"
    using Math_sqrt_accuracy [of s2] by auto
  have len2: "CVector3_length (CVector3_normalized (CVector3 (Fin x) (Fin y) (Fin z))) = Fin G"
    by (simp only: nrm CVector3_length_Fin s2_def [symmetric] G(1))
  have up: "G \<le> 1 + 1 / 100000"
  proof -
    have "s2 * (1 + 1 / 2 ^ 30) \<le> 1 * (1 + 1 / 2 ^ 30)"
      using s2_hi by (intro mult_right_mono) simp_all
    with G(4) have "G\<^sup>2 \<le> 1 + 1 / 2 ^ 30" by simp
    also have "\<dots> \<le> (1 + 1 / 100000)\<^sup>2" by (simp add: power2_eq_square)
    finally show ?thesis by (rule power2_le_imp_le) simp
  qed
  have dn: "1 - 1 / 100000 \<le> G"
  proof -
    have "(1 - 1 / 100000 :: real)\<^sup>2 \<le> 1 / (1 + 1 / 2 ^ 30)" by (simp add: power2_eq_square)
    also have "\<dots> \<le> s2" by (rule s2_lo)
    also have "\<dots> \<le> G\<^sup>2" by (rule G(3))
    finally have "(1 - 1 / 100000)\<^sup>2 \<le> G\<^sup>2" .
    moreover have "0 \<le> G" using G(2) by simp
    ultimately show ?thesis by (rule power2_le_imp_le)
  qed
  have "\<bar>G - 1\<bar> \<le> 1 / 100000" using up dn by linarith
  then show ?thesis
    by (simp only: len2 Math_abs_Fin less_eq_float.simps)
qed

lemma normalized_length_in_range_example:
  "Math_abs (CVector3_length (CVector3_normalized (CVector3 (Fin 3) (Fin 4) (Fin 0))) - Fin 1)
     \<le> Fin (1 / 100000)"
  using normalized_length_in_range [of 3 4 0] by simp

text \<open>
  C3. The claim is that for every vector \<open>v\<close> with \<open>v.length() > 0\<close> the value
  \<open>v.normalized().length()\<close> is within \<open>10\<^sup>-\<^sup>5\<close> of 1 (and that the zero vector is returned
  unchanged, which \<open>normalized_zero\<close> proves). The first half fails at
  \<open>v = (1048576, 0, 0)\<close>: \<^verbatim>\<open>sqrt\<close> starts at \<open>2\<^sup>3\<^sup>9\<close> and ten halvings leave the length at
  \<open>2\<^sup>2\<^sup>9\<close> or more instead of \<open>2\<^sup>2\<^sup>0\<close>, \<open>normalized()\<close> returns \<open>(c, 0, 0)\<close> with
  \<open>c \<le> 1/512\<close>, and the length computed for that vector is at most \<open>0.51\<close>.
\<close>

theorem normalized_length_far_from_one:
  "Fin 0 < CVector3_length (CVector3 (Fin 1048576) (Fin 0) (Fin 0)) \<and>
   \<not> Math_abs (CVector3_length (CVector3_normalized (CVector3 (Fin 1048576) (Fin 0) (Fin 0)))
               - Fin 1) \<le> Fin (1 / 100000)"
proof -
  define s :: real where "s = 1048576 * 1048576 + 0 * 0 + 0 * 0"
  have s: "s = 2 ^ 40" by (simp add: s_def)
  have s0: "0 < s" by (simp add: s)
  define g where "g = ((\<lambda>g. (g + s / g) / 2) ^^ 10) (s / 2)"
  have sq: "Math_sqrt (Fin s) = Fin g" unfolding g_def using s0 by (rule Math_sqrt_Fin)
  have g0: "0 < g" unfolding g_def using s0 by (intro iter_pos) simp_all
  have "(s / 2) / 2 ^ 10 \<le> g" unfolding g_def using s0 by (intro iter_lower) simp_all
  then have glo: "2 ^ 29 \<le> g" by (simp add: s)
  have len: "CVector3_length (CVector3 (Fin 1048576) (Fin 0) (Fin 0)) = Fin g"
    by (simp only: CVector3_length_Fin s_def [symmetric] sq)
  have nrm: "CVector3_normalized (CVector3 (Fin 1048576) (Fin 0) (Fin 0)) =
             CVector3 (Fin (1048576 / g)) (Fin (0 / g)) (Fin (0 / g))"
    using len g0 by (intro CVector3_normalized_Fin) simp_all
  define c where "c = 1048576 / g"
  define s2 where "s2 = (1048576 / g) * (1048576 / g) + (0 / g) * (0 / g) + (0 / g) * (0 / g)"
  have s2: "s2 = c * c" by (simp add: s2_def c_def)
  have c0: "0 < c" using g0 by (simp add: c_def)
  have chi: "c \<le> 1 / 512"
  proof -
    have "1048576 / g \<le> 1048576 / 2 ^ 29" using glo by (intro divide_left_mono) simp_all
    then show ?thesis by (simp add: c_def)
  qed
  have s20: "0 < s2" using c0 by (simp add: s2)
  have s2hi: "s2 \<le> 1 / 512 * (1 / 512)" unfolding s2 using c0 chi by (intro mult_mono) simp_all
  define G2 where "G2 = (\<lambda>g. (g + s2 / g) / 2) ((\<lambda>g. (g + s2 / g) / 2) (s2 / 2))"
  define G where "G = ((\<lambda>g. (g + s2 / g) / 2) ^^ 8) G2"
  have G1: "(\<lambda>g. (g + s2 / g) / 2) (s2 / 2) = s2 / 4 + 1" using s20 by (simp add: field_simps)
  have G2: "G2 = ((s2 / 4 + 1) + s2 / (s2 / 4 + 1)) / 2" unfolding G2_def G1 by simp
  have G1pos: "0 < s2 / 4 + 1" using s20 by (simp add: add_pos_pos)
  have G2pos: "0 < G2" unfolding G2 using s20 G1pos by (rule newton_pos)
  have G2sq: "s2 \<le> G2\<^sup>2" unfolding G2 using G1pos by (rule newton_sq_ge)
  have "s2 / (s2 / 4 + 1) \<le> s2 / 1" using s20 by (intro divide_left_mono) simp_all
  then have G2hi: "G2 \<le> 51 / 100" using s2hi by (simp add: G2)
  have "G \<le> G2" unfolding G_def using iter_decr [OF s20 G2pos G2sq, of 8] by simp
  then have Ghi: "G \<le> 51 / 100" using G2hi by simp
  have "Math_sqrt (Fin s2) = Fin (((\<lambda>g. (g + s2 / g) / 2) ^^ 10) (s2 / 2))"
    using s20 by (rule Math_sqrt_Fin)
  also have "((\<lambda>g. (g + s2 / g) / 2) ^^ 10) (s2 / 2) = G"
    unfolding G_def G2_def by (rule funpow_10_split2)
  finally have sq2: "Math_sqrt (Fin s2) = Fin G" .
  have len2:
    "CVector3_length (CVector3_normalized (CVector3 (Fin 1048576) (Fin 0) (Fin 0))) = Fin G"
    by (simp only: nrm CVector3_length_Fin s2_def [symmetric] sq2)
  have "\<not> \<bar>G - 1\<bar> \<le> 1 / 100000" using Ghi by simp
  then have
    "\<not> Math_abs (CVector3_length (CVector3_normalized (CVector3 (Fin 1048576) (Fin 0) (Fin 0)))
               - Fin 1) \<le> Fin (1 / 100000)"
    by (simp only: len2 Math_abs_Fin less_eq_float.simps not_False_eq_True)
  moreover have "Fin 0 < CVector3_length (CVector3 (Fin 1048576) (Fin 0) (Fin 0))"
    using g0 by (simp add: len)
  ultimately show ?thesis by simp
qed


section \<open>Quaternion: results\<close>

lemma Quaternion_length_zero:
  "Quaternion_length (Quaternion (Fin 0) (Fin 0) (Fin 0) (Fin 0)) = Fin 0"
  by (simp add: Quaternion_length_def Math_sqrt_def)

text \<open>
  C6 as stated fails: on the quaternion \<open>(0, 0, 0, 0)\<close>, whose magnitude is exactly 0, the
  in-place \<^verbatim>\<open>normalize()\<close> takes its early \<^verbatim>\<open>return\<close> and leaves \<open>(0, 0, 0, 0)\<close>, which
  is not the identity quaternion \<open>(0, 0, 0, 1)\<close>.
\<close>

theorem normalize_zero_not_identity:
  "feq (Quaternion_length (Quaternion (Fin 0) (Fin 0) (Fin 0) (Fin 0))) (Fin 0) \<and>
   \<not> Quaternion_eq (Quaternion_normalize (Quaternion (Fin 0) (Fin 0) (Fin 0) (Fin 0)))
                    Quaternion_identity"
  by (simp add: Quaternion_normalize_def Quaternion_length_zero Quaternion_eq_def
        Quaternion_identity_def Let_def)

text \<open>
  C6, amended. For every quaternion \<open>q\<close> for which \<^verbatim>\<open>length()\<close> returns exactly 0, neither
  operation faults: \<^verbatim>\<open>normalized()\<close> returns the identity quaternion \<open>(0, 0, 0, 1)\<close>, and the
  in-place \<^verbatim>\<open>normalize()\<close> is a no-op that leaves \<open>q\<close> as it was, whatever its
  components are. The theorem has the value \<open>len\<close> that \<^verbatim>\<open>length()\<close> returned as a
  variable of its own, so it covers the zero quaternion and every non-zero \<open>q\<close> whose
  squares underflow: \<^verbatim>\<open>normalize()\<close> and \<^verbatim>\<open>normalized()\<close> are their bodies applied to
  \<open>length()\<close> (the first two conjuncts), and on a \<open>len\<close> that compares equal to 0 the
  bodies return \<open>q\<close> itself and the identity (the third).
\<close>

theorem normalize_zero_magnitude:
  "Quaternion_normalized q = Quaternion_normalized_from (Quaternion_length q) q \<and>
   Quaternion_normalize q = Quaternion_normalize_from (Quaternion_length q) q \<and>
   (feq len (Fin 0) \<longrightarrow>
      Quaternion_normalized_from len q = Quaternion_identity \<and>
      Quaternion_normalize_from len q = q)"
  by (simp add: Quaternion_normalized_def Quaternion_normalize_def
        Quaternion_normalized_from_def Quaternion_normalize_from_def Quaternion_identity_def
        Let_def)

text \<open>
  The witness: \<open>(2\<^sup>-\<^sup>8\<^sup>0, 0, 0, 0)\<close> with the 0 that single precision computes for its length
  is returned unchanged by \<^verbatim>\<open>normalize()\<close>, not reset, and the zero quaternion with the
  length that the model computes.
\<close>

theorem normalize_zero_magnitude_witness:
  "feq (Fin 0) (Fin 0) \<and>
   Quaternion_normalized_from (Fin 0) (Quaternion (Fin (1 / 2 ^ 80)) (Fin 0) (Fin 0) (Fin 0))
     = Quaternion_identity \<and>
   Quaternion_normalize_from (Fin 0) (Quaternion (Fin (1 / 2 ^ 80)) (Fin 0) (Fin 0) (Fin 0))
     = Quaternion (Fin (1 / 2 ^ 80)) (Fin 0) (Fin 0) (Fin 0) \<and>
   feq (Quaternion_length (Quaternion (Fin 0) (Fin 0) (Fin 0) (Fin 0))) (Fin 0) \<and>
   Quaternion_normalized (Quaternion (Fin 0) (Fin 0) (Fin 0) (Fin 0)) = Quaternion_identity \<and>
   Quaternion_normalize (Quaternion (Fin 0) (Fin 0) (Fin 0) (Fin 0)) =
     Quaternion (Fin 0) (Fin 0) (Fin 0) (Fin 0)"
  using
    normalize_zero_magnitude [of "Quaternion (Fin (1 / 2 ^ 80)) (Fin 0) (Fin 0) (Fin 0)" "Fin 0"]
    normalize_zero_magnitude [of "Quaternion (Fin 0) (Fin 0) (Fin 0) (Fin 0)"
      "Quaternion_length (Quaternion (Fin 0) (Fin 0) (Fin 0) (Fin 0))"]
  by (simp add: Quaternion_length_zero)

text \<open>
  C1 as stated fails: for \<open>a = (0, 0, 0, 2)\<close> and \<open>t = 0.5\<close> the blend of \<open>a\<close> with itself
  is \<open>a\<close>, its length is \<open>sqrt(4) = 2\<close> (the guess 2 is a fixed point of the iteration),
  and the renormalisation returns \<open>(0, 0, 0, 1)\<close>, which \<^verbatim>\<open>operator==\<close> tells from \<open>a\<close>.
\<close>

theorem lerp_same_endpoints_not_noop:
  "Quaternion_lerp (Quaternion (Fin 0) (Fin 0) (Fin 0) (Fin 2))
                   (Quaternion (Fin 0) (Fin 0) (Fin 0) (Fin 2)) (Fin 0.5)
     = Quaternion (Fin 0) (Fin 0) (Fin 0) (Fin 1) \<and>
   \<not> Quaternion_eq
        (Quaternion_lerp (Quaternion (Fin 0) (Fin 0) (Fin 0) (Fin 2))
                         (Quaternion (Fin 0) (Fin 0) (Fin 0) (Fin 2)) (Fin 0.5))
        (Quaternion (Fin 0) (Fin 0) (Fin 0) (Fin 2))"
  by (simp add: Quaternion_lerp_def Quaternion_normalized_def Quaternion_length_def
        Quaternion_eq_def minus_float_def Math_sqrt_4)

text \<open>
  C1, amended. For every quaternion \<open>a\<close> with finite components and every \<open>t\<close> that is
  not NaN, \<^verbatim>\<open>Quaternion::lerp(a, a, t)\<close> returns \<open>a.normalized()\<close>: the blend of identical
  endpoints is \<open>a\<close>, and the renormalisation then rescales it (or returns the identity
  quaternion when the length of \<open>a\<close> is 0).
\<close>

theorem lerp_same_endpoints:
  assumes "t \<noteq> NaN"
  shows "Quaternion_lerp (Quaternion (Fin x) (Fin y) (Fin z) (Fin w))
                         (Quaternion (Fin x) (Fin y) (Fin z) (Fin w)) t
         = Quaternion_normalized (Quaternion (Fin x) (Fin y) (Fin z) (Fin w))"
  using assms by (cases t) (simp_all add: Quaternion_lerp_def minus_float_def)

theorem lerp_same_endpoints_witness:
  "Fin 0.5 \<noteq> NaN \<and>
   Quaternion_lerp (Quaternion (Fin 0) (Fin 0) (Fin 0) (Fin 2))
                   (Quaternion (Fin 0) (Fin 0) (Fin 0) (Fin 2)) (Fin 0.5)
     = Quaternion_normalized (Quaternion (Fin 0) (Fin 0) (Fin 0) (Fin 2))"
  using lerp_same_endpoints [of "Fin 0.5" 0 0 0 2] by simp


section \<open>Matrices: evaluation of the loops\<close>

lemma rd3_Matrix3x3:
  "rd3 (Matrix3x3 a00 a01 a02 a10 a11 a12 a20 a21 a22) 0 0 = a00"
  "rd3 (Matrix3x3 a00 a01 a02 a10 a11 a12 a20 a21 a22) 0 1 = a01"
  "rd3 (Matrix3x3 a00 a01 a02 a10 a11 a12 a20 a21 a22) 0 2 = a02"
  "rd3 (Matrix3x3 a00 a01 a02 a10 a11 a12 a20 a21 a22) 1 0 = a10"
  "rd3 (Matrix3x3 a00 a01 a02 a10 a11 a12 a20 a21 a22) 1 1 = a11"
  "rd3 (Matrix3x3 a00 a01 a02 a10 a11 a12 a20 a21 a22) 1 2 = a12"
  "rd3 (Matrix3x3 a00 a01 a02 a10 a11 a12 a20 a21 a22) 2 0 = a20"
  "rd3 (Matrix3x3 a00 a01 a02 a10 a11 a12 a20 a21 a22) 2 1 = a21"
  "rd3 (Matrix3x3 a00 a01 a02 a10 a11 a12 a20 a21 a22) 2 2 = a22"
  by (simp_all add: rd3_def Matrix3x3_def)

lemma wr3_Matrix3x3:
  "wr3 (Matrix3x3 a00 a01 a02 a10 a11 a12 a20 a21 a22) 0 0 v =
     Matrix3x3 v a01 a02 a10 a11 a12 a20 a21 a22"
  "wr3 (Matrix3x3 a00 a01 a02 a10 a11 a12 a20 a21 a22) 0 1 v =
     Matrix3x3 a00 v a02 a10 a11 a12 a20 a21 a22"
  "wr3 (Matrix3x3 a00 a01 a02 a10 a11 a12 a20 a21 a22) 0 2 v =
     Matrix3x3 a00 a01 v a10 a11 a12 a20 a21 a22"
  "wr3 (Matrix3x3 a00 a01 a02 a10 a11 a12 a20 a21 a22) 1 0 v =
     Matrix3x3 a00 a01 a02 v a11 a12 a20 a21 a22"
  "wr3 (Matrix3x3 a00 a01 a02 a10 a11 a12 a20 a21 a22) 1 1 v =
     Matrix3x3 a00 a01 a02 a10 v a12 a20 a21 a22"
  "wr3 (Matrix3x3 a00 a01 a02 a10 a11 a12 a20 a21 a22) 1 2 v =
     Matrix3x3 a00 a01 a02 a10 a11 v a20 a21 a22"
  "wr3 (Matrix3x3 a00 a01 a02 a10 a11 a12 a20 a21 a22) 2 0 v =
     Matrix3x3 a00 a01 a02 a10 a11 a12 v a21 a22"
  "wr3 (Matrix3x3 a00 a01 a02 a10 a11 a12 a20 a21 a22) 2 1 v =
     Matrix3x3 a00 a01 a02 a10 a11 a12 a20 v a22"
  "wr3 (Matrix3x3 a00 a01 a02 a10 a11 a12 a20 a21 a22) 2 2 v =
     Matrix3x3 a00 a01 a02 a10 a11 a12 a20 a21 v"
  by (simp_all add: wr3_def Matrix3x3_def)

lemma Matrix3x3_cases:
  obtains a00 a01 a02 a10 a11 a12 a20 a21 a22
  where "M = Matrix3x3 a00 a01 a02 a10 a11 a12 a20 a21 a22"
proof (cases M)
  case (Mat3 rows)
  obtain r0 r1 r2 where rows: "rows = Array3 r0 r1 r2" by (cases rows)
  obtain a00 a01 a02 where r0: "r0 = Array3 a00 a01 a02" by (cases r0)
  obtain a10 a11 a12 where r1: "r1 = Array3 a10 a11 a12" by (cases r1)
  obtain a20 a21 a22 where r2: "r2 = Array3 a20 a21 a22" by (cases r2)
  show thesis using that Mat3 rows r0 r1 r2 by (simp add: Matrix3x3_def)
qed

lemma Matrix3x3_scale_eval:
  "Matrix3x3_scale (Matrix3x3 a00 a01 a02 a10 a11 a12 a20 a21 a22) s =
     Matrix3x3 (a00 * s) (a01 * s) (a02 * s) (a10 * s) (a11 * s) (a12 * s)
               (a20 * s) (a21 * s) (a22 * s)"
  by (simp only: Matrix3x3_scale_def Matrix3x3_default_def upt3 fold_simps o_apply id_apply
        rd3_Matrix3x3 wr3_Matrix3x3)

lemma Matrix3x3_mul_eval:
  "Matrix3x3_mul (Matrix3x3 a00 a01 a02 a10 a11 a12 a20 a21 a22)
                 (Matrix3x3 b00 b01 b02 b10 b11 b12 b20 b21 b22) =
     Matrix3x3 (Fin 0 + a00 * b00 + a01 * b10 + a02 * b20)
               (Fin 0 + a00 * b01 + a01 * b11 + a02 * b21)
               (Fin 0 + a00 * b02 + a01 * b12 + a02 * b22)
               (Fin 0 + a10 * b00 + a11 * b10 + a12 * b20)
               (Fin 0 + a10 * b01 + a11 * b11 + a12 * b21)
               (Fin 0 + a10 * b02 + a11 * b12 + a12 * b22)
               (Fin 0 + a20 * b00 + a21 * b10 + a22 * b20)
               (Fin 0 + a20 * b01 + a21 * b11 + a22 * b21)
               (Fin 0 + a20 * b02 + a21 * b12 + a22 * b22)"
  by (simp only: Matrix3x3_mul_def Matrix3x3_zero_def upt3 fold_simps o_apply id_apply
        rd3_Matrix3x3 wr3_Matrix3x3)

lemma Matrix3x3_determinant_eval:
  "Matrix3x3_determinant (Matrix3x3 a00 a01 a02 a10 a11 a12 a20 a21 a22) =
     a00 * (a11 * a22 - a12 * a21) - a01 * (a10 * a22 - a12 * a20)
       + a02 * (a10 * a21 - a11 * a20)"
  by (simp only: Matrix3x3_determinant_def rd3_Matrix3x3)

lemma Matrix3x3_transpose_eval:
  "Matrix3x3_transpose (Matrix3x3 a00 a01 a02 a10 a11 a12 a20 a21 a22) =
     Matrix3x3 a00 a10 a20 a01 a11 a21 a02 a12 a22"
  by (simp only: Matrix3x3_transpose_def rd3_Matrix3x3)

lemma cofactor_indices:
  "(0 + 1) mod 3 = (1::nat)" "(0 + 2) mod 3 = (2::nat)"
  "(1 + 1) mod 3 = (2::nat)" "(1 + 2) mod 3 = (0::nat)"
  "(2 + 1) mod 3 = (0::nat)" "(2 + 2) mod 3 = (1::nat)"
  "((0 + 0) mod 2 = (0::nat)) = True" "((0 + 1) mod 2 = (0::nat)) = False"
  "((0 + 2) mod 2 = (0::nat)) = True" "((1 + 0) mod 2 = (0::nat)) = False"
  "((1 + 1) mod 2 = (0::nat)) = True" "((1 + 2) mod 2 = (0::nat)) = False"
  "((2 + 0) mod 2 = (0::nat)) = True" "((2 + 1) mod 2 = (0::nat)) = False"
  "((2 + 2) mod 2 = (0::nat)) = True"
  by simp_all

text \<open>
  The cofactors as the code computes them. The minor taken over the cyclically next
  rows and columns already carries the sign of the cofactor; the code negates it
  again where \<open>row + col\<close> is odd, so those four entries have the opposite sign.
\<close>

lemma Matrix3x3_cofactorMatrix_eval:
  "Matrix3x3_cofactorMatrix (Matrix3x3 a00 a01 a02 a10 a11 a12 a20 a21 a22) =
     Matrix3x3 (a11 * a22 - a12 * a21) (- (a12 * a20 - a10 * a22)) (a10 * a21 - a11 * a20)
               (- (a21 * a02 - a22 * a01)) (a22 * a00 - a20 * a02) (- (a20 * a01 - a21 * a00))
               (a01 * a12 - a02 * a11) (- (a02 * a10 - a00 * a12)) (a00 * a11 - a01 * a10)"
  by (simp only: Matrix3x3_cofactorMatrix_def Matrix3x3_cofactor_def Let_def cofactor_indices
        if_True if_False rd3_Matrix3x3)

lemma rd4_Mat4:
  "rd4 (Mat4 (Array4 (Array4 a b c d) (Array4 e f g h)
                   (Array4 i j k l) (Array4 p q r s))) 0 0 = a"
  "rd4 (Mat4 (Array4 (Array4 a b c d) (Array4 e f g h)
                   (Array4 i j k l) (Array4 p q r s))) 0 1 = b"
  "rd4 (Mat4 (Array4 (Array4 a b c d) (Array4 e f g h)
                   (Array4 i j k l) (Array4 p q r s))) 0 2 = c"
  "rd4 (Mat4 (Array4 (Array4 a b c d) (Array4 e f g h)
                   (Array4 i j k l) (Array4 p q r s))) 0 3 = d"
  "rd4 (Mat4 (Array4 (Array4 a b c d) (Array4 e f g h)
                   (Array4 i j k l) (Array4 p q r s))) 1 0 = e"
  "rd4 (Mat4 (Array4 (Array4 a b c d) (Array4 e f g h)
                   (Array4 i j k l) (Array4 p q r s))) 1 1 = f"
  "rd4 (Mat4 (Array4 (Array4 a b c d) (Array4 e f g h)
                   (Array4 i j k l) (Array4 p q r s))) 1 2 = g"
  "rd4 (Mat4 (Array4 (Array4 a b c d) (Array4 e f g h)
                   (Array4 i j k l) (Array4 p q r s))) 1 3 = h"
  "rd4 (Mat4 (Array4 (Array4 a b c d) (Array4 e f g h)
                   (Array4 i j k l) (Array4 p q r s))) 2 0 = i"
  "rd4 (Mat4 (Array4 (Array4 a b c d) (Array4 e f g h)
                   (Array4 i j k l) (Array4 p q r s))) 2 1 = j"
  "rd4 (Mat4 (Array4 (Array4 a b c d) (Array4 e f g h)
                   (Array4 i j k l) (Array4 p q r s))) 2 2 = k"
  "rd4 (Mat4 (Array4 (Array4 a b c d) (Array4 e f g h)
                   (Array4 i j k l) (Array4 p q r s))) 2 3 = l"
  "rd4 (Mat4 (Array4 (Array4 a b c d) (Array4 e f g h)
                   (Array4 i j k l) (Array4 p q r s))) 3 0 = p"
  "rd4 (Mat4 (Array4 (Array4 a b c d) (Array4 e f g h)
                   (Array4 i j k l) (Array4 p q r s))) 3 1 = q"
  "rd4 (Mat4 (Array4 (Array4 a b c d) (Array4 e f g h)
                   (Array4 i j k l) (Array4 p q r s))) 3 2 = r"
  "rd4 (Mat4 (Array4 (Array4 a b c d) (Array4 e f g h)
                   (Array4 i j k l) (Array4 p q r s))) 3 3 = s"
  by (simp_all add: rd4_def)

lemma wr4_Mat4:
  "wr4 (Mat4 (Array4 (Array4 a b c d) (Array4 e f g h)
                   (Array4 i j k l) (Array4 p q r s))) 0 0 v =
     Mat4 (Array4 (Array4 v b c d) (Array4 e f g h)
                (Array4 i j k l) (Array4 p q r s))"
  "wr4 (Mat4 (Array4 (Array4 a b c d) (Array4 e f g h)
                   (Array4 i j k l) (Array4 p q r s))) 0 1 v =
     Mat4 (Array4 (Array4 a v c d) (Array4 e f g h)
                (Array4 i j k l) (Array4 p q r s))"
  "wr4 (Mat4 (Array4 (Array4 a b c d) (Array4 e f g h)
                   (Array4 i j k l) (Array4 p q r s))) 0 2 v =
     Mat4 (Array4 (Array4 a b v d) (Array4 e f g h)
                (Array4 i j k l) (Array4 p q r s))"
  "wr4 (Mat4 (Array4 (Array4 a b c d) (Array4 e f g h)
                   (Array4 i j k l) (Array4 p q r s))) 0 3 v =
     Mat4 (Array4 (Array4 a b c v) (Array4 e f g h)
                (Array4 i j k l) (Array4 p q r s))"
  "wr4 (Mat4 (Array4 (Array4 a b c d) (Array4 e f g h)
                   (Array4 i j k l) (Array4 p q r s))) 1 0 v =
     Mat4 (Array4 (Array4 a b c d) (Array4 v f g h)
                (Array4 i j k l) (Array4 p q r s))"
  "wr4 (Mat4 (Array4 (Array4 a b c d) (Array4 e f g h)
                   (Array4 i j k l) (Array4 p q r s))) 1 1 v =
     Mat4 (Array4 (Array4 a b c d) (Array4 e v g h)
                (Array4 i j k l) (Array4 p q r s))"
  "wr4 (Mat4 (Array4 (Array4 a b c d) (Array4 e f g h)
                   (Array4 i j k l) (Array4 p q r s))) 1 2 v =
     Mat4 (Array4 (Array4 a b c d) (Array4 e f v h)
                (Array4 i j k l) (Array4 p q r s))"
  "wr4 (Mat4 (Array4 (Array4 a b c d) (Array4 e f g h)
                   (Array4 i j k l) (Array4 p q r s))) 1 3 v =
     Mat4 (Array4 (Array4 a b c d) (Array4 e f g v)
                (Array4 i j k l) (Array4 p q r s))"
  "wr4 (Mat4 (Array4 (Array4 a b c d) (Array4 e f g h)
                   (Array4 i j k l) (Array4 p q r s))) 2 0 v =
     Mat4 (Array4 (Array4 a b c d) (Array4 e f g h)
                (Array4 v j k l) (Array4 p q r s))"
  "wr4 (Mat4 (Array4 (Array4 a b c d) (Array4 e f g h)
                   (Array4 i j k l) (Array4 p q r s))) 2 1 v =
     Mat4 (Array4 (Array4 a b c d) (Array4 e f g h)
                (Array4 i v k l) (Array4 p q r s))"
  "wr4 (Mat4 (Array4 (Array4 a b c d) (Array4 e f g h)
                   (Array4 i j k l) (Array4 p q r s))) 2 2 v =
     Mat4 (Array4 (Array4 a b c d) (Array4 e f g h)
                (Array4 i j v l) (Array4 p q r s))"
  "wr4 (Mat4 (Array4 (Array4 a b c d) (Array4 e f g h)
                   (Array4 i j k l) (Array4 p q r s))) 2 3 v =
     Mat4 (Array4 (Array4 a b c d) (Array4 e f g h)
                (Array4 i j k v) (Array4 p q r s))"
  "wr4 (Mat4 (Array4 (Array4 a b c d) (Array4 e f g h)
                   (Array4 i j k l) (Array4 p q r s))) 3 0 v =
     Mat4 (Array4 (Array4 a b c d) (Array4 e f g h)
                (Array4 i j k l) (Array4 v q r s))"
  "wr4 (Mat4 (Array4 (Array4 a b c d) (Array4 e f g h)
                   (Array4 i j k l) (Array4 p q r s))) 3 1 v =
     Mat4 (Array4 (Array4 a b c d) (Array4 e f g h)
                (Array4 i j k l) (Array4 p v r s))"
  "wr4 (Mat4 (Array4 (Array4 a b c d) (Array4 e f g h)
                   (Array4 i j k l) (Array4 p q r s))) 3 2 v =
     Mat4 (Array4 (Array4 a b c d) (Array4 e f g h)
                (Array4 i j k l) (Array4 p q v s))"
  "wr4 (Mat4 (Array4 (Array4 a b c d) (Array4 e f g h)
                   (Array4 i j k l) (Array4 p q r s))) 3 3 v =
     Mat4 (Array4 (Array4 a b c d) (Array4 e f g h)
                (Array4 i j k l) (Array4 p q r v))"
  by (simp_all add: wr4_def)

lemma Matrix4x4_cases:
  obtains a b c d e f g h i j k l p q r s
  where "M = Mat4 (Array4 (Array4 a b c d) (Array4 e f g h)
                (Array4 i j k l) (Array4 p q r s))"
proof (cases M)
  case (Mat4 rows)
  obtain r0 r1 r2 r3 where rows: "rows = Array4 r0 r1 r2 r3" by (cases rows)
  obtain a b c d where r0: "r0 = Array4 a b c d" by (cases r0)
  obtain e f g h where r1: "r1 = Array4 e f g h" by (cases r1)
  obtain i j k l where r2: "r2 = Array4 i j k l" by (cases r2)
  obtain p q r s where r3: "r3 = Array4 p q r s" by (cases r3)
  show thesis using that Mat4 rows r0 r1 r2 r3 by simp
qed

lemma Matrix4x4_eval:
  "Matrix4x4 diag =
     Mat4 (Array4 (Array4 diag (Fin 0) (Fin 0) (Fin 0)) (Array4 (Fin 0) diag (Fin 0) (Fin 0))
                  (Array4 (Fin 0) (Fin 0) diag (Fin 0)) (Array4 (Fin 0) (Fin 0) (Fin 0) diag))"
  unfolding Matrix4x4_def Matrix4x4_storage_def
  by (simp only: upt4 fold_simps o_apply id_apply wr4_Mat4) simp

lemma Matrix4x4_transpose_eval:
  "Matrix4x4_transpose (Mat4 (Array4 (Array4 a b c d) (Array4 e f g h)
                (Array4 i j k l) (Array4 p q r s))) =
     Mat4 (Array4 (Array4 a e i p) (Array4 b f j q)
           (Array4 c g k r) (Array4 d h l s))"
  by (simp only: Matrix4x4_transpose_def Matrix4x4_eval upt4 fold_simps o_apply id_apply
        rd4_Mat4 wr4_Mat4)


section \<open>Matrices: results\<close>

text \<open>
  C7. For every \<^verbatim>\<open>Matrix2x2\<close>, every \<^verbatim>\<open>Matrix3x3\<close> and every \<^verbatim>\<open>EngineUtilities::Matrix4x4\<close>,
  transposing twice gives the matrix back, entry for entry. No arithmetic is involved,
  so the entries may be any floats, NaN included.
\<close>

theorem transpose_transpose:
  "Matrix2x2_transpose (Matrix2x2_transpose A) = A \<and>
   Matrix3x3_transpose (Matrix3x3_transpose B) = B \<and>
   Matrix4x4_transpose (Matrix4x4_transpose C) = C"
proof (intro conjI)
  show "Matrix2x2_transpose (Matrix2x2_transpose A) = A"
    by (cases A) (simp add: Matrix2x2_transpose_def)
next
  obtain a00 a01 a02 a10 a11 a12 a20 a21 a22
    where B: "B = Matrix3x3 a00 a01 a02 a10 a11 a12 a20 a21 a22"
    by (rule Matrix3x3_cases)
  show "Matrix3x3_transpose (Matrix3x3_transpose B) = B"
    unfolding B by (simp only: Matrix3x3_transpose_eval)
next
  obtain a b c d e f g h i j k l p q r s
    where C: "C = Mat4 (Array4 (Array4 a b c d) (Array4 e f g h)
                (Array4 i j k l) (Array4 p q r s))"
    by (rule Matrix4x4_cases)
  show "Matrix4x4_transpose (Matrix4x4_transpose C) = C"
    unfolding C by (simp only: Matrix4x4_transpose_eval)
qed

text \<open>
  C4. For every \<^verbatim>\<open>Matrix2x2\<close> and every \<^verbatim>\<open>Matrix3x3\<close> whose \<^verbatim>\<open>determinant()\<close> compares
  equal to 0, \<^verbatim>\<open>inverse()\<close> returns the identity matrix and signals nothing. \<^verbatim>\<open>inverse\<close>
  is a \<^verbatim>\<open>const\<close> member that assigns to no field, which is why it is a function of the
  matrix that returns only the result: the matrix it is called on stays as it was.
\<close>

theorem inverse_singular:
  "(feq (Matrix2x2_determinant M) (Fin 0) \<longrightarrow> Matrix2x2_inverse M = Matrix2x2_identity) \<and>
   (feq (Matrix3x3_determinant N) (Fin 0) \<longrightarrow> Matrix3x3_inverse N = Matrix3x3_identity)"
  by (simp add: Matrix2x2_inverse_def Matrix2x2_identity_def Matrix3x3_inverse_def Let_def)

theorem inverse_singular_witness:
  "feq (Matrix2x2_determinant (Matrix2x2 (Fin 1) (Fin 2) (Fin 2) (Fin 4))) (Fin 0) \<and>
   Matrix2x2_inverse (Matrix2x2 (Fin 1) (Fin 2) (Fin 2) (Fin 4)) = Matrix2x2_identity \<and>
   feq (Matrix3x3_determinant
          (Matrix3x3 (Fin 1) (Fin 2) (Fin 3) (Fin 2) (Fin 4) (Fin 6) (Fin 0) (Fin 0) (Fin 1)))
       (Fin 0) \<and>
   Matrix3x3_inverse
     (Matrix3x3 (Fin 1) (Fin 2) (Fin 3) (Fin 2) (Fin 4) (Fin 6) (Fin 0) (Fin 0) (Fin 1))
     = Matrix3x3_identity"
  using inverse_singular [of "Matrix2x2 (Fin 1) (Fin 2) (Fin 2) (Fin 4)"
      "Matrix3x3 (Fin 1) (Fin 2) (Fin 3) (Fin 2) (Fin 4) (Fin 6) (Fin 0) (Fin 0) (Fin 1)"]
  by (simp add: Matrix2x2_determinant_def Matrix3x3_determinant_eval minus_float_def)

text \<open>
  The 2x2 half of C5 in exact arithmetic: for finite entries with \<open>ad - bc \<noteq> 0\<close> the
  product of the matrix with its \<^verbatim>\<open>inverse()\<close> is the identity.
\<close>

lemma Matrix2x2_mul_inverse:
  assumes "a * d - b * c \<noteq> 0"
  shows "Matrix2x2_mul (Matrix2x2 (Fin a) (Fin b) (Fin c) (Fin d))
                       (Matrix2x2_inverse (Matrix2x2 (Fin a) (Fin b) (Fin c) (Fin d)))
         = Matrix2x2_identity"
proof -
  define D where "D = a * d - b * c"
  have D: "D \<noteq> 0" using assms by (simp add: D_def)
  have det: "Matrix2x2_determinant (Matrix2x2 (Fin a) (Fin b) (Fin c) (Fin d)) = Fin D"
    by (simp add: Matrix2x2_determinant_def minus_float_def D_def)
  have inv: "Matrix2x2_inverse (Matrix2x2 (Fin a) (Fin b) (Fin c) (Fin d)) =
             Matrix2x2 (Fin (d * (1 / D))) (Fin (- b * (1 / D)))
                       (Fin (- c * (1 / D))) (Fin (a * (1 / D)))"
    using D by (simp add: Matrix2x2_inverse_def det Let_def)
  have DD: "D * (1 / D) = 1" using D by simp
  have "a * (d * (1 / D)) + b * (- c * (1 / D)) = (a * d - b * c) * (1 / D)"
    by (simp add: algebra_simps)
  then have e1: "a * (d * (1 / D)) + b * (- c * (1 / D)) = 1"
    using DD by (simp only: D_def)
  have e2: "a * (- b * (1 / D)) + b * (a * (1 / D)) = 0"
    by (simp add: field_simps)
  have e3: "c * (d * (1 / D)) + d * (- c * (1 / D)) = 0"
    by (simp add: field_simps)
  have "c * (- b * (1 / D)) + d * (a * (1 / D)) = (a * d - b * c) * (1 / D)"
    by (simp add: algebra_simps)
  then have e4: "c * (- b * (1 / D)) + d * (a * (1 / D)) = 1"
    using DD by (simp only: D_def)
  show ?thesis
    unfolding inv Matrix2x2_mul_def Matrix2x2_identity_def Matrix2x2_default_def
    by (simp only: Matrix2x2.sel times_float.simps plus_float.simps e1 e2 e3 e4)
qed

text \<open>
  C5. The claim is that \<open>M * M.inverse()\<close> is the identity, within epsilon in every
  entry, whenever \<open>M.determinant() \<noteq> 0\<close>. For \<^verbatim>\<open>Matrix3x3\<close> it is not: on the shear
  \<open>M = (1 1 0; 0 1 0; 0 0 1)\<close>, of determinant 1, \<^verbatim>\<open>inverse()\<close> returns \<open>M\<close> itself, because
  \<^verbatim>\<open>cofactor\<close> gives the entry at row 1, column 0 the wrong sign, and the product is
  \<open>(1 2 0; 0 1 0; 0 0 1)\<close>: the entry at row 0, column 1 is 2 away from the identity.
\<close>

theorem Matrix3x3_inverse_shear:
  "\<not> feq (Matrix3x3_determinant
            (Matrix3x3 (Fin 1) (Fin 1) (Fin 0) (Fin 0) (Fin 1) (Fin 0) (Fin 0) (Fin 0) (Fin 1)))
         (Fin 0) \<and>
   Matrix3x3_inverse
     (Matrix3x3 (Fin 1) (Fin 1) (Fin 0) (Fin 0) (Fin 1) (Fin 0) (Fin 0) (Fin 0) (Fin 1))
     = Matrix3x3 (Fin 1) (Fin 1) (Fin 0) (Fin 0) (Fin 1) (Fin 0) (Fin 0) (Fin 0) (Fin 1) \<and>
   Matrix3x3_mul
     (Matrix3x3 (Fin 1) (Fin 1) (Fin 0) (Fin 0) (Fin 1) (Fin 0) (Fin 0) (Fin 0) (Fin 1))
     (Matrix3x3_inverse
        (Matrix3x3 (Fin 1) (Fin 1) (Fin 0) (Fin 0) (Fin 1) (Fin 0) (Fin 0) (Fin 0) (Fin 1)))
     = Matrix3x3 (Fin 1) (Fin 2) (Fin 0) (Fin 0) (Fin 1) (Fin 0) (Fin 0) (Fin 0) (Fin 1) \<and>
   Math_abs
     (rd3 (Matrix3x3_mul
             (Matrix3x3 (Fin 1) (Fin 1) (Fin 0) (Fin 0) (Fin 1) (Fin 0) (Fin 0) (Fin 0) (Fin 1))
             (Matrix3x3_inverse
                (Matrix3x3 (Fin 1) (Fin 1) (Fin 0) (Fin 0) (Fin 1) (Fin 0) (Fin 0) (Fin 0)
                   (Fin 1)))) 0 1
      - rd3 Matrix3x3_identity 0 1) = Fin 2"
proof -
  let ?M = "Matrix3x3 (Fin 1) (Fin 1) (Fin 0) (Fin 0) (Fin 1) (Fin 0) (Fin 0) (Fin 0) (Fin 1)"
  have det: "Matrix3x3_determinant ?M = Fin 1"
    by (simp add: Matrix3x3_determinant_eval minus_float_def)
  have adj: "Matrix3x3_adjugate ?M = ?M"
    by (simp add: Matrix3x3_adjugate_def Matrix3x3_cofactorMatrix_eval Matrix3x3_transpose_eval
          minus_float_def)
  have inv: "Matrix3x3_inverse ?M = ?M"
    by (simp add: Matrix3x3_inverse_def det adj Matrix3x3_scale_eval Let_def)
  have prod: "Matrix3x3_mul ?M ?M =
      Matrix3x3 (Fin 1) (Fin 2) (Fin 0) (Fin 0) (Fin 1) (Fin 0) (Fin 0) (Fin 0) (Fin 1)"
    by (simp add: Matrix3x3_mul_eval)
  have diff:
    "Math_abs
       (rd3 (Matrix3x3 (Fin 1) (Fin 2) (Fin 0) (Fin 0) (Fin 1) (Fin 0) (Fin 0) (Fin 0) (Fin 1))
          0 1
        - rd3 Matrix3x3_identity 0 1) = Fin 2"
    by (simp only: Matrix3x3_identity_def rd3_Matrix3x3 Math_abs_Fin) simp
  have nz: "\<not> feq (Matrix3x3_determinant ?M) (Fin 0)" by (simp add: det)
  show ?thesis by (simp only: inv prod diff nz simp_thms)
qed

text \<open>
  C9. For every \<^verbatim>\<open>Matrix3x3\<close> \<open>M\<close> and every 2D vector \<open>v\<close>, \<open>M * v\<close> is computed from the
  homogeneous product \<open>h = M * (v.x, v.y, 1)\<close>, the product of \<open>M\<close> with a 3D vector:
  when \<open>h.z \<noteq> 0\<close> the result is \<open>(h.x / h.z, h.y / h.z)\<close>, and when \<open>h.z\<close> equals 0 it is
  \<open>(h.x, h.y)\<close> with no division. The function has a result for every input.
\<close>

theorem Matrix3x3_mul_CVector2_homogeneous:
  "Matrix3x3_mul_CVector2 M v =
     (let h = Matrix3x3_mul_CVector3 M (CVector3 (v2x v) (v2y v) (Fin 1))
      in if \<not> feq (v3z h) (Fin 0) then CVector2 (v3x h / v3z h) (v3y h / v3z h)
         else CVector2 (v3x h) (v3y h))"
  by (simp add: Matrix3x3_mul_CVector2_def Matrix3x3_mul_CVector3_def Let_def)

end
